theory Spec2Isabelle
  imports Complex_Main "HOL-Library.Char_ord" "HOL-Library.List_Lexorder"
begin

section \<open>Data model (app/models/invoice.py, app/models/transaction.py)\<close>

text \<open>
  The money and rate columns are \<open>Numeric\<close> columns of scale 2, read back as Python
  \<open>Decimal\<close> values. A \<open>Decimal\<close> is an exact rational here: the products, sums and the
  division by 100 that the source performs are exact on decimals of the size the columns
  hold. The store rounds a value to the scale of its column when it writes the row
  (\<open>round_cents\<close> below); the precision limit of the columns is not modelled.
\<close>

datatype InvoiceStatus =
  DRAFT | SENT | VIEWED | PARTIALLY_PAID | PAID | OVERDUE | VOID | UNCOLLECTIBLE

datatype TransactionType = INCOME | EXPENSE | TRANSFER

datatype TransactionCategory =
  SERVICE | PRODUCT_SALE | INTEREST | REFUND | OTHER_INCOME
  | OFFICE_SUPPLIES | RENT | UTILITIES | SALARY | CONTRACTOR | SOFTWARE | HARDWARE
  | TRAVEL | MEALS | MARKETING | PROFESSIONAL_SERVICES | INSURANCE | TAXES | OTHER_EXPENSE

text \<open>A \<open>datetime.date\<close>: year, month, day.\<close>

record date =
  year :: int
  month :: int
  day :: int

text \<open>Comparison of dates is lexicographic on (year, month, day).\<close>

definition date_less :: "date \<Rightarrow> date \<Rightarrow> bool" where
  "date_less a b \<longleftrightarrow>
     year a < year b \<or> (year a = year b \<and> (month a < month b \<or> (month a = month b \<and> day a < day b)))"

definition date_le :: "date \<Rightarrow> date \<Rightarrow> bool" where
  "date_le a b \<longleftrightarrow> \<not> date_less b a"

record InvoiceItem =
  item_id :: "nat option"
  description :: string
  quantity :: rat
  unit_price :: rat
  item_tax_rate :: rat
  amount :: rat

record Invoice =
  inv_id :: nat
  invoice_number :: string
  issue_date :: date
  due_date :: date
  status :: InvoiceStatus
  inv_notes :: "string option"
  terms :: "string option"
  tax_rate :: rat
  subtotal :: rat
  tax_amount :: rat
  total :: rat
  amount_paid :: rat
  amount_due :: rat
  currency :: string
  user_id :: nat
  client_id :: nat
  project_id :: "nat option"
  items :: "InvoiceItem list"

record Transaction =
  txn_id :: nat
  txn_date :: date
  txn_amount :: rat
  txn_description :: string
  txn_reference :: "string option"
  is_reconciled :: bool
  txn_type :: TransactionType
  category :: TransactionCategory
  txn_user_id :: nat
  txn_project_id :: "nat option"
  txn_invoice_id :: "nat option"

subsection \<open>InvoiceItem.calculate_amount and Invoice.calculate_totals\<close>

definition calculate_amount :: "InvoiceItem \<Rightarrow> rat" where
  "calculate_amount it = quantity it * unit_price it * (1 + item_tax_rate it / 100)"

text \<open>
  \<open>calculate_totals\<close> assigns the four derived fields in the order of the source, each
  from the fields already assigned, and then promotes the status.
\<close>

definition calculate_totals :: "Invoice \<Rightarrow> Invoice" where
  "calculate_totals invoice =
     (let i1 = invoice\<lparr>subtotal := sum_list (map amount (items invoice))\<rparr>;
          i2 = i1\<lparr>tax_amount := subtotal i1 * (tax_rate i1 / 100)\<rparr>;
          i3 = i2\<lparr>total := subtotal i2 + tax_amount i2\<rparr>;
          i4 = i3\<lparr>amount_due := total i3 - amount_paid i3\<rparr>
      in if amount_due i4 \<le> 0 then i4\<lparr>status := PAID\<rparr>
         else if amount_paid i4 > 0 then i4\<lparr>status := PARTIALLY_PAID\<rparr>
         else i4)"

section \<open>Store, errors and request data\<close>

text \<open>
  The relational store holds the invoice rows (each with its items) and the ledger of
  transactions. An operation takes the store and returns the store it leaves and either
  an error or its result; a rollback leaves the store it was given.
\<close>

record db =
  invoices :: "Invoice list"
  transactions :: "Transaction list"

text \<open>
  The errors of the source are ValueError exceptions and HTTP 400/404 answers that differ
  in their message; each message is one constructor. \<open>TypeError\<close> is the exception of
  Python's arithmetic. \<open>CreateFailed\<close>, \<open>UpdateFailed\<close> and \<open>PaymentFailed\<close> are what the
  \<open>except Exception\<close> handlers make of any other exception, after the rollback: 'Failed to
  create invoice', 'Failed to update invoice', 'Failed to record payment' (HTTP 500 in the
  routes).
\<close>

datatype error =
    MissingRequiredField string
  | NoItems
  | InvalidDateFormat
  | InvalidDateRange
  | MissingItemField
  | InvalidStatus
  | InvalidAmount
  | MalformedAmount
  | OverpaymentRejected
  | InvoiceVoid
  | InvoiceLocked
  | NotFound
  | MissingField
  | ClientEmailNotFound
  | InvalidMonths
  | InvalidGroupBy
  | DateOutOfRange
  | TypeError
  | CreateFailed
  | UpdateFailed
  | PaymentFailed

subsection \<open>Python numbers and the scale of the columns\<close>

text \<open>
  The value of a numeric attribute of an object: a \<open>Decimal\<close>, as the store returns it and
  as \<open>Decimal(str(x))\<close> makes it; a \<open>float\<close> or \<open>int\<close> taken from the JSON request as it is;
  or \<open>None\<close>, which an attribute of a new object holds until the INSERT has applied the
  default of its column.
\<close>

datatype number = Decimal rat | Float rat | NoneValue

text \<open>
  \<open>calculate_totals\<close> on an object whose \<open>tax_rate\<close> and \<open>amount_paid\<close> attributes hold the
  given values. With a \<open>tax_rate\<close> that is not a \<open>Decimal\<close>, \<open>tax_rate / 100\<close> is a float:
  \<open>subtotal * (tax_rate / 100)\<close> is a \<open>Decimal\<close> times a float when the invoice has items,
  and without items the float total meets the \<open>Decimal\<close> \<open>amount_paid\<close> in
  \<open>total - amount_paid\<close>; both raise TypeError. With \<open>amount_paid\<close> \<open>None\<close>,
  \<open>total - amount_paid\<close> raises TypeError.
\<close>

definition calculate_totals_with :: "number \<Rightarrow> number \<Rightarrow> Invoice \<Rightarrow> error + Invoice" where
  "calculate_totals_with rate paid invoice =
     (case rate of
        Decimal r \<Rightarrow>
          (case paid of
             Decimal p \<Rightarrow> Inr (calculate_totals (invoice\<lparr>tax_rate := r, amount_paid := p\<rparr>))
           | _ \<Rightarrow> Inl TypeError)
      | _ \<Rightarrow> Inl TypeError)"

text \<open>\<open>a += b\<close> on a \<open>Decimal\<close> attribute: TypeError unless \<open>b\<close> is a \<open>Decimal\<close> too.\<close>

definition decimal_add :: "rat \<Rightarrow> number \<Rightarrow> error + rat" where
  "decimal_add a b = (case b of Decimal v \<Rightarrow> Inr (a + v) | _ \<Rightarrow> Inl TypeError)"

text \<open>
  What a \<open>Numeric\<close> column of scale 2 keeps of a value: the nearest multiple of 0.01, a
  tie going away from zero.
\<close>

definition round_cents :: "rat \<Rightarrow> rat" where
  "round_cents x =
     (if 0 \<le> x then of_int \<lfloor>x * 100 + 1 / 2\<rfloor> / 100
      else - (of_int \<lfloor>- x * 100 + 1 / 2\<rfloor> / 100))"

definition as_stored_item :: "InvoiceItem \<Rightarrow> InvoiceItem" where
  "as_stored_item it =
     it\<lparr>quantity := round_cents (quantity it), unit_price := round_cents (unit_price it),
        item_tax_rate := round_cents (item_tax_rate it), amount := round_cents (amount it)\<rparr>"

text \<open>
  The invoice as its row and the rows of its items hold it after a commit. The object that
  a service returns is read again from these rows, the commit having expired it.
\<close>

definition as_stored :: "Invoice \<Rightarrow> Invoice" where
  "as_stored invoice =
     invoice\<lparr>tax_rate := round_cents (tax_rate invoice),
              subtotal := round_cents (subtotal invoice),
              tax_amount := round_cents (tax_amount invoice),
              total := round_cents (total invoice),
              amount_paid := round_cents (amount_paid invoice),
              amount_due := round_cents (amount_due invoice),
              items := map as_stored_item (items invoice)\<rparr>"

text \<open>
  A field of a JSON request that the handler converts: the key is absent, or its value
  does not convert (\<open>strptime\<close> or \<open>float\<close> raises), or it converts to a value.
\<close>

datatype 'a field = Absent | Malformed | Value 'a

record item_data =
  i_id :: "nat option"
  i_description :: "string option"
  i_quantity :: "rat option"
  i_unit_price :: "rat option"
  i_tax_rate :: "rat option"

text \<open>
  The keyword arguments of create_invoice and update_invoice: \<open>None\<close> is a key that is
  absent. \<open>d_tax_rate\<close> is the JSON number of the request. \<open>d_other\<close> lists the keys of
  the request that the service does not know.
\<close>

record invoice_data =
  d_client_id :: "nat option"
  d_project_id :: "nat option"
  d_issue_date :: "date field"
  d_due_date :: "date field"
  d_status :: "string option"
  d_currency :: "string option"
  d_tax_rate :: "rat option"
  d_notes :: "string option"
  d_terms :: "string option"
  d_items :: "item_data list option"
  d_other :: "string list"

record payment_request =
  req_amount :: "rat field"
  req_payment_date :: "date field"

definition data_keys :: "invoice_data \<Rightarrow> string list" where
  "data_keys data =
     (if d_client_id data = None then [] else [''client_id'']) @
     (if d_project_id data = None then [] else [''project_id'']) @
     (if d_issue_date data = Absent then [] else [''issue_date'']) @
     (if d_due_date data = Absent then [] else [''due_date'']) @
     (if d_status data = None then [] else [''status'']) @
     (if d_currency data = None then [] else [''currency'']) @
     (if d_tax_rate data = None then [] else [''tax_rate'']) @
     (if d_notes data = None then [] else [''notes'']) @
     (if d_terms data = None then [] else [''terms'']) @
     (if d_items data = None then [] else [''items'']) @
     d_other data"

text \<open>\<open>InvoiceStatus(value)\<close>: the member with that value, or ValueError.\<close>

definition InvoiceStatus_of :: "string \<Rightarrow> InvoiceStatus option" where
  "InvoiceStatus_of v =
     (if v = ''draft'' then Some DRAFT
      else if v = ''sent'' then Some SENT
      else if v = ''viewed'' then Some VIEWED
      else if v = ''partially_paid'' then Some PARTIALLY_PAID
      else if v = ''paid'' then Some PAID
      else if v = ''overdue'' then Some OVERDUE
      else if v = ''void'' then Some VOID
      else if v = ''uncollectible'' then Some UNCOLLECTIBLE
      else None)"

subsection \<open>Queries and writes\<close>

text \<open>\<open>Invoice.query.filter_by(id=invoice_id, user_id=current_user_id).first()\<close>\<close>

definition find_invoice :: "db \<Rightarrow> nat \<Rightarrow> nat \<Rightarrow> Invoice option" where
  "find_invoice s invoice_id current_user_id =
     List.find (\<lambda>i. inv_id i = invoice_id \<and> user_id i = current_user_id) (invoices s)"

text \<open>
  Committing a changed invoice object writes its row, found by primary key. The row is
  given as the columns hold it: an operation that has computed money passes \<open>as_stored\<close> of
  its object.
\<close>

definition save_invoice :: "db \<Rightarrow> Invoice \<Rightarrow> db" where
  "save_invoice s invoice =
     s\<lparr>invoices := map (\<lambda>i. if inv_id i = inv_id invoice then invoice else i) (invoices s)\<rparr>"

definition add_transaction :: "db \<Rightarrow> Transaction \<Rightarrow> db" where
  "add_transaction s t = s\<lparr>transactions := transactions s @ [t]\<rparr>"

text \<open>The store gives a new row a primary key above every key of its table.\<close>

definition fresh_id :: "nat list \<Rightarrow> nat" where
  "fresh_id ids = Suc (fold max ids 0)"

fun assign_ids :: "nat \<Rightarrow> InvoiceItem list \<Rightarrow> InvoiceItem list" where
  "assign_ids n [] = []"
| "assign_ids n (it # its) =
     (case item_id it of
        None \<Rightarrow> it\<lparr>item_id := Some n\<rparr> # assign_ids (Suc n) its
      | Some k \<Rightarrow> it # assign_ids n its)"

definition all_item_ids :: "db \<Rightarrow> nat list" where
  "all_item_ids s = concat (map (\<lambda>i. List.map_filter item_id (items i)) (invoices s))"

subsection \<open>Formatting and matching of numbers in strings\<close>

definition digit_char :: "nat \<Rightarrow> char" where
  "digit_char d = char_of (48 + d)"

definition is_digit :: "char \<Rightarrow> bool" where
  "is_digit c \<longleftrightarrow> 48 \<le> (of_char c :: nat) \<and> (of_char c :: nat) \<le> 57"

definition digit_val :: "char \<Rightarrow> nat" where
  "digit_val c = of_char c - 48"

text \<open>\<open>str(n)\<close> of a natural number, and the zero padding of \<open>{n:0wd}\<close>.\<close>

fun str_nat :: "nat \<Rightarrow> string" where
  "str_nat n = (if n < 10 then [digit_char n] else str_nat (n div 10) @ [digit_char (n mod 10)])"

declare str_nat.simps [simp del]

definition zfill :: "nat \<Rightarrow> string \<Rightarrow> string" where
  "zfill w s = replicate (w - length s) (CHR ''0'') @ s"

text \<open>\<open>int(s)\<close> of a string of decimal digits.\<close>

definition int_of_digits :: "string \<Rightarrow> nat" where
  "int_of_digits s = foldl (\<lambda>a c. 10 * a + digit_val c) 0 s"

text \<open>
  \<open>re.match(r'INV-(\d{4})(\d{2})-(\d+)', s)\<close>: the match is anchored at the start only,
  and the last group takes every digit that follows. The result is the three groups as
  numbers.
\<close>

definition match_invoice_number :: "string \<Rightarrow> (nat \<times> nat \<times> nat) option" where
  "match_invoice_number s =
     (if take 4 s = ''INV-'' then
        (let r = drop 4 s; y = take 4 r; m = take 2 (drop 4 r); r3 = drop 6 r;
             q = takeWhile is_digit (drop 1 r3)
         in if length y = 4 \<and> list_all is_digit y \<and> length m = 2 \<and> list_all is_digit m
               \<and> take 1 r3 = ''-'' \<and> q \<noteq> []
            then Some (int_of_digits y, int_of_digits m, int_of_digits q)
            else None)
      else None)"

section \<open>Invoice engine (app/services/invoice_service.py)\<close>

subsection \<open>Invoice numbers\<close>

text \<open>\<open>Invoice.query.filter_by(user_id=user_id).order_by(Invoice.id.desc()).first()\<close>\<close>

fun latest_of :: "Invoice list \<Rightarrow> Invoice option" where
  "latest_of [] = None"
| "latest_of (i # rest) =
     (case latest_of rest of
        None \<Rightarrow> Some i
      | Some j \<Rightarrow> if inv_id i < inv_id j then Some j else Some i)"

definition latest_invoice :: "db \<Rightarrow> nat \<Rightarrow> Invoice option" where
  "latest_invoice s uid = latest_of (filter (\<lambda>i. user_id i = uid) (invoices s))"

definition format_invoice_number :: "int \<Rightarrow> int \<Rightarrow> nat \<Rightarrow> string" where
  "format_invoice_number current_year current_month sequence =
     ''INV-'' @ str_nat (nat current_year) @ zfill 2 (str_nat (nat current_month))
       @ ''-'' @ zfill 4 (str_nat sequence)"

definition next_sequence :: "Invoice option \<Rightarrow> int \<Rightarrow> int \<Rightarrow> nat" where
  "next_sequence latest current_year current_month =
     (case latest of
        None \<Rightarrow> 1
      | Some li \<Rightarrow>
          if invoice_number li = [] then 1
          else (case match_invoice_number (invoice_number li) of
                  None \<Rightarrow> 1
                | Some (y, m, sq) \<Rightarrow>
                    if int y = current_year \<and> int m = current_month then sq + 1 else 1))"

text \<open>\<open>today\<close> is the value of \<open>date.today()\<close> at the call.\<close>

definition generate_invoice_number :: "db \<Rightarrow> date \<Rightarrow> nat \<Rightarrow> string" where
  "generate_invoice_number s today uid =
     format_invoice_number (year today) (month today)
       (next_sequence (latest_invoice s uid) (year today) (month today))"

subsection \<open>create_invoice\<close>

text \<open>The item built from one entry of \<open>data['items']\<close>, with its computed amount.\<close>

definition build_item :: "string \<Rightarrow> rat \<Rightarrow> rat \<Rightarrow> rat option \<Rightarrow> InvoiceItem" where
  "build_item de q p t =
     (let item = \<lparr>item_id = None, description = de, quantity = q, unit_price = p,
                  item_tax_rate = (case t of None \<Rightarrow> 0 | Some r \<Rightarrow> r), amount = 0\<rparr>
      in item\<lparr>amount := quantity item * unit_price item * (1 + item_tax_rate item / 100)\<rparr>)"

fun create_items :: "item_data list \<Rightarrow> error + InvoiceItem list" where
  "create_items [] = Inr []"
| "create_items (item_data # rest) =
     (case (i_description item_data, i_quantity item_data, i_unit_price item_data) of
        (Some de, Some q, Some p) \<Rightarrow>
          (case create_items rest of
             Inl e \<Rightarrow> Inl e
           | Inr its \<Rightarrow> Inr (build_item de q p (i_tax_rate item_data) # its))
      | _ \<Rightarrow> Inl MissingItemField)"

text \<open>
  A new Invoice object has the values given to its constructor; its other attributes,
  \<open>amount_paid\<close> among them, are \<open>None\<close>: the default of a column is applied by the INSERT,
  and create_invoice calls \<open>calculate_totals\<close> before it adds the object to the session.
  The four derived fields are written by \<open>calculate_totals\<close> before it reads them; they
  are 0 in the record until then. The INSERT refuses a number that a row already has
  (\<open>unique=True\<close>).
\<close>

definition create_invoice :: "db \<Rightarrow> date \<Rightarrow> nat \<Rightarrow> invoice_data \<Rightarrow> db \<times> (error + Invoice)" where
  "create_invoice s today uid data =
     (case d_client_id data of
        None \<Rightarrow> (s, Inl (MissingRequiredField ''client_id''))
      | Some cid \<Rightarrow>
     if d_issue_date data = Absent then (s, Inl (MissingRequiredField ''issue_date''))
     else if d_due_date data = Absent then (s, Inl (MissingRequiredField ''due_date''))
     else (case d_items data of
        None \<Rightarrow> (s, Inl (MissingRequiredField ''items''))
      | Some item_datas \<Rightarrow>
     if item_datas = [] then (s, Inl NoItems)
     else (case d_issue_date data of
        Value issue \<Rightarrow>
          (case d_due_date data of
             Value due \<Rightarrow>
               if date_less due issue then (s, Inl InvalidDateRange)
               else
                 (case create_items item_datas of
                    Inl e \<Rightarrow> (s, Inl e)
                  | Inr its \<Rightarrow>
                      (let invoice =
                             \<lparr>inv_id = fresh_id (map inv_id (invoices s)),
                              invoice_number = generate_invoice_number s today uid,
                              issue_date = issue, due_date = due, status = DRAFT,
                              inv_notes = d_notes data, terms = d_terms data,
                              tax_rate = 0,
                              subtotal = 0, tax_amount = 0, total = 0, amount_paid = 0,
                              amount_due = 0,
                              currency = (case d_currency data of None \<Rightarrow> ''USD'' | Some c \<Rightarrow> c),
                              user_id = uid, client_id = cid, project_id = d_project_id data,
                              items = its\<rparr>
                       in case calculate_totals_with
                                 (Decimal (case d_tax_rate data of None \<Rightarrow> 0 | Some r \<Rightarrow> r))
                                 NoneValue invoice of
                            Inl e \<Rightarrow> (s, Inl CreateFailed)
                          | Inr invoice1 \<Rightarrow>
                              if invoice_number invoice1 \<in> set (map invoice_number (invoices s))
                              then (s, Inl CreateFailed)
                              else
                                (let invoice2 = as_stored
                                       (invoice1\<lparr>items := assign_ids (fresh_id (all_item_ids s))
                                                           (items invoice1)\<rparr>)
                                 in (s\<lparr>invoices := invoices s @ [invoice2]\<rparr>, Inr invoice2))))
           | _ \<Rightarrow> (s, Inl InvalidDateFormat))
      | _ \<Rightarrow> (s, Inl InvalidDateFormat))))"

subsection \<open>update_invoice\<close>

text \<open>\<open>existing_items = {item.id: item for item in invoice.items}\<close>\<close>

fun items_by_id :: "InvoiceItem list \<Rightarrow> (nat \<rightharpoonup> InvoiceItem)" where
  "items_by_id [] = Map.empty"
| "items_by_id (it # its) =
     (case item_id it of
        None \<Rightarrow> items_by_id its
      | Some k \<Rightarrow> (case items_by_id its k of None \<Rightarrow> (items_by_id its)(k \<mapsto> it) | Some _ \<Rightarrow> items_by_id its))"

text \<open>
  The loop over \<open>data['items']\<close>: an entry whose id is set and is a key of
  \<open>existing_items\<close> updates that item and removes the key; any other entry makes a new item.
\<close>

fun update_items :: "(nat \<rightharpoonup> InvoiceItem) \<Rightarrow> item_data list \<Rightarrow> error + InvoiceItem list" where
  "update_items existing_items [] = Inr []"
| "update_items existing_items (item_data # rest) =
     (case (i_description item_data, i_quantity item_data, i_unit_price item_data) of
        (Some de, Some q, Some p) \<Rightarrow>
          (case (case i_id item_data of
                   None \<Rightarrow> None
                 | Some k \<Rightarrow> if k \<noteq> 0 then map_option (Pair k) (existing_items k) else None) of
             Some (k, item) \<Rightarrow>
               (let item1 = item\<lparr>description := de, quantity := q, unit_price := p,
                                 item_tax_rate := (case i_tax_rate item_data of None \<Rightarrow> 0 | Some r \<Rightarrow> r)\<rparr>;
                    item2 = item1\<lparr>amount := quantity item1 * unit_price item1 * (1 + item_tax_rate item1 / 100)\<rparr>
                in (case update_items (existing_items(k := None)) rest of
                      Inl e \<Rightarrow> Inl e
                    | Inr its \<Rightarrow> Inr (item2 # its)))
           | None \<Rightarrow>
               (case update_items existing_items rest of
                  Inl e \<Rightarrow> Inl e
                | Inr its \<Rightarrow> Inr (build_item de q p (i_tax_rate item_data) # its)))
      | _ \<Rightarrow> Inl MissingItemField)"

text \<open>The three steps of update_invoice that come before the items, in the source's order.\<close>

definition update_dates :: "Invoice \<Rightarrow> invoice_data \<Rightarrow> error + Invoice" where
  "update_dates invoice data =
     (case (case d_issue_date data of
              Absent \<Rightarrow> Inr invoice
            | Malformed \<Rightarrow> Inl InvalidDateFormat
            | Value d \<Rightarrow> Inr (invoice\<lparr>issue_date := d\<rparr>)) of
        Inl e \<Rightarrow> Inl e
      | Inr invoice1 \<Rightarrow>
          (case d_due_date data of
             Absent \<Rightarrow> Inr invoice1
           | Malformed \<Rightarrow> Inl InvalidDateFormat
           | Value d \<Rightarrow> if date_less d (issue_date invoice1) then Inl InvalidDateRange
                        else Inr (invoice1\<lparr>due_date := d\<rparr>)))"

definition update_status :: "Invoice \<Rightarrow> invoice_data \<Rightarrow> error + Invoice" where
  "update_status invoice data =
     (case d_status data of
        None \<Rightarrow> Inr invoice
      | Some v \<Rightarrow> (case InvoiceStatus_of v of
                     None \<Rightarrow> Inl InvalidStatus
                   | Some st \<Rightarrow> Inr (invoice\<lparr>status := st\<rparr>)))"

definition set_optional :: "('a \<Rightarrow> Invoice \<Rightarrow> Invoice) \<Rightarrow> 'a option \<Rightarrow> Invoice \<Rightarrow> Invoice" where
  "set_optional f v invoice = (case v of None \<Rightarrow> invoice | Some x \<Rightarrow> f x invoice)"

text \<open>
  The loop over \<open>optional_fields\<close>, for the fields that are not numeric. The loop also
  puts the \<open>tax_rate\<close> of the request into the object as it is; \<open>tax_rate_attribute\<close> is
  the value that the attribute holds after the loop.
\<close>

definition update_optional_fields :: "Invoice \<Rightarrow> invoice_data \<Rightarrow> Invoice" where
  "update_optional_fields invoice data =
     (set_optional (\<lambda>v i. i\<lparr>terms := Some v\<rparr>) (d_terms data)
     (set_optional (\<lambda>v i. i\<lparr>inv_notes := Some v\<rparr>) (d_notes data)
     (set_optional (\<lambda>v i. i\<lparr>currency := v\<rparr>) (d_currency data)
     (set_optional (\<lambda>v i. i\<lparr>project_id := Some v\<rparr>) (d_project_id data)
     (set_optional (\<lambda>v i. i\<lparr>client_id := v\<rparr>) (d_client_id data) invoice)))))"

definition tax_rate_attribute :: "Invoice \<Rightarrow> invoice_data \<Rightarrow> number" where
  "tax_rate_attribute invoice data =
     (case d_tax_rate data of None \<Rightarrow> Decimal (tax_rate invoice) | Some v \<Rightarrow> Float v)"

definition replace_items :: "Invoice \<Rightarrow> invoice_data \<Rightarrow> error + Invoice" where
  "replace_items invoice data =
     (case d_items data of
        None \<Rightarrow> Inr invoice
      | Some item_datas \<Rightarrow>
          (case update_items (items_by_id (items invoice)) item_datas of
             Inl e \<Rightarrow> Inl e
           | Inr new_items \<Rightarrow> Inr (invoice\<lparr>items := new_items\<rparr>)))"

definition update_invoice :: "db \<Rightarrow> Invoice \<Rightarrow> invoice_data \<Rightarrow> db \<times> (error + Invoice)" where
  "update_invoice s invoice data =
     (case update_dates invoice data of
        Inl e \<Rightarrow> (s, Inl e)
      | Inr invoice2 \<Rightarrow>
     (case update_status invoice2 data of
        Inl e \<Rightarrow> (s, Inl e)
      | Inr invoice3 \<Rightarrow>
     (case replace_items (update_optional_fields invoice3 data) data of
        Inl e \<Rightarrow> (s, Inl e)
      | Inr invoice5 \<Rightarrow>
          (case calculate_totals_with (tax_rate_attribute invoice5 data)
                  (Decimal (amount_paid invoice5)) invoice5 of
             Inl e \<Rightarrow> (s, Inl UpdateFailed)
           | Inr invoice6 \<Rightarrow>
               (let invoice7 = as_stored
                      (invoice6\<lparr>items := assign_ids (fresh_id (all_item_ids s)) (items invoice6)\<rparr>)
                in (save_invoice s invoice7, Inr invoice7))))))"

subsection \<open>record_payment and send_invoice of the service\<close>

text \<open>
  \<open>payment_amount\<close> is the value of \<open>Decimal(str(amount))\<close>. The invoice and the
  transaction are returned as their rows hold them.
\<close>

definition record_payment ::
  "db \<Rightarrow> Invoice \<Rightarrow> rat \<Rightarrow> date \<Rightarrow> db \<times> (error + Invoice \<times> Transaction)" where
  "record_payment s invoice payment_amount payment_date =
     (if payment_amount \<le> 0 then (s, Inl InvalidAmount)
      else if payment_amount > amount_due invoice then (s, Inl OverpaymentRejected)
      else
        (let invoice1 = as_stored (calculate_totals
                          (invoice\<lparr>amount_paid := amount_paid invoice + payment_amount\<rparr>));
             transaction =
               \<lparr>txn_id = fresh_id (map txn_id (transactions s)),
                txn_date = payment_date, txn_amount = round_cents payment_amount,
                txn_description = ''Payment for invoice '' @ invoice_number invoice1,
                txn_reference = Some (''INV-'' @ str_nat (inv_id invoice1)),
                is_reconciled = True, txn_type = INCOME, category = SERVICE,
                txn_user_id = user_id invoice1, txn_project_id = project_id invoice1,
                txn_invoice_id = Some (inv_id invoice1)\<rparr>
         in (add_transaction (save_invoice s invoice1) transaction, Inr (invoice1, transaction))))"

text \<open>
  send_invoice commits the promotion from DRAFT before it looks for the client's e-mail
  address, so the promotion stays when the address is missing. \<open>client_email\<close> is
  \<open>invoice.client.email\<close>, or \<open>None\<close> without a client.
\<close>

definition send_invoice :: "db \<Rightarrow> Invoice \<Rightarrow> bool \<Rightarrow> string option \<Rightarrow> db \<times> (error + bool)" where
  "send_invoice s invoice send_email client_email =
     (let s1 = (if status invoice = DRAFT then save_invoice s (invoice\<lparr>status := SENT\<rparr>) else s)
      in if send_email then
           (case client_email of
              None \<Rightarrow> (s1, Inl ClientEmailNotFound)
            | Some e \<Rightarrow> if e = [] then (s1, Inl ClientEmailNotFound) else (s1, Inr True))
         else (s1, Inr True))"

section \<open>Routes (app/routes/invoices.py)\<close>

definition allowed_updates :: "string list" where
  "allowed_updates = [''status'', ''notes'', ''terms'']"

definition route_update_invoice ::
  "db \<Rightarrow> nat \<Rightarrow> nat \<Rightarrow> invoice_data \<Rightarrow> db \<times> (error + Invoice)" where
  "route_update_invoice s current_user_id invoice_id data =
     (case find_invoice s invoice_id current_user_id of
        None \<Rightarrow> (s, Inl NotFound)
      | Some invoice \<Rightarrow>
          if (status invoice = PAID \<or> status invoice = PARTIALLY_PAID)
             \<and> list_ex (\<lambda>field. field \<notin> set allowed_updates) (data_keys data)
          then (s, Inl InvoiceLocked)
          else update_invoice s invoice data)"

definition route_send_invoice :: "db \<Rightarrow> nat \<Rightarrow> nat \<Rightarrow> db \<times> (error + Invoice)" where
  "route_send_invoice s current_user_id invoice_id =
     (case find_invoice s invoice_id current_user_id of
        None \<Rightarrow> (s, Inl NotFound)
      | Some invoice \<Rightarrow>
          (let invoice1 = invoice\<lparr>status := SENT\<rparr>
           in (save_invoice s invoice1, Inr invoice1)))"

text \<open>
  The route records a payment with its own code, not with the service. Its amount is
  \<open>float(data['amount'])\<close>, and \<open>invoice.amount_paid += payment_amount\<close> adds this float
  to the \<open>Decimal\<close> of the column: TypeError, which the handler answers with a rollback
  and 'Failed to record payment'.
\<close>

definition route_record_payment ::
  "db \<Rightarrow> nat \<Rightarrow> nat \<Rightarrow> payment_request \<Rightarrow> db \<times> (error + Invoice)" where
  "route_record_payment s current_user_id invoice_id data =
     (if req_amount data = Absent \<or> req_payment_date data = Absent then (s, Inl MissingField)
      else (case req_amount data of
        Value payment_amount \<Rightarrow>
          if payment_amount \<le> 0 then (s, Inl InvalidAmount)
          else (case find_invoice s invoice_id current_user_id of
             None \<Rightarrow> (s, Inl NotFound)
           | Some invoice \<Rightarrow>
               if status invoice = VOID then (s, Inl InvoiceVoid)
               else (case req_payment_date data of
                  Value payment_date \<Rightarrow>
                    (case decimal_add (amount_paid invoice) (Float payment_amount) of
                       Inl e \<Rightarrow> (s, Inl PaymentFailed)
                     | Inr paid \<Rightarrow>
                         (let invoice1 = as_stored (calculate_totals (invoice\<lparr>amount_paid := paid\<rparr>));
                              transaction =
                                \<lparr>txn_id = fresh_id (map txn_id (transactions s)),
                                 txn_date = payment_date, txn_amount = round_cents payment_amount,
                                 txn_description = ''Payment for invoice '' @ invoice_number invoice1,
                                 txn_reference = None,
                                 is_reconciled = False, txn_type = INCOME, category = SERVICE,
                                 txn_user_id = current_user_id, txn_project_id = project_id invoice1,
                                 txn_invoice_id = Some (inv_id invoice1)\<rparr>
                          in (add_transaction (save_invoice s invoice1) transaction, Inr invoice1)))
                | _ \<Rightarrow> (s, Inl InvalidDateFormat)))
      | _ \<Rightarrow> (s, Inl MalformedAmount)))"

section \<open>Reporting aggregator (app/routes/reports.py)\<close>

text \<open>
  The reports read the ledger and change nothing. The handlers turn the sums of the query
  into \<open>float\<close> values and add floats to floats only; the amounts are the same rationals
  here, and the rounding of floating-point addition is not modelled.
\<close>

subsection \<open>The grouped query\<close>

text \<open>\<open>Transaction.user_id == current_user_id, Transaction.date.between(start_date, end_date)\<close>\<close>

definition user_transactions :: "db \<Rightarrow> nat \<Rightarrow> date \<Rightarrow> date \<Rightarrow> Transaction list" where
  "user_transactions s current_user_id start_date end_date =
     filter (\<lambda>t. txn_user_id t = current_user_id \<and> date_le start_date (txn_date t)
                 \<and> date_le (txn_date t) end_date) (transactions s)"

text \<open>
  The rows of \<open>group_by(period, type)\<close> with \<open>sum(amount)\<close>, ordered by period: one row
  for each period and type that has a transaction. The query does not fix the order of the
  rows of one period; they are listed here as INCOME, EXPENSE, TRANSFER. \<open>date_part\<close> is
  the SQL expression that gives the period of a date.
\<close>

definition group_row ::
  "(date \<Rightarrow> 'p) \<Rightarrow> Transaction list \<Rightarrow> 'p \<Rightarrow> TransactionType \<Rightarrow> ('p \<times> TransactionType \<times> rat) list" where
  "group_row date_part txns p ty =
     (let g = filter (\<lambda>t. date_part (txn_date t) = p \<and> txn_type t = ty) txns
      in if g = [] then [] else [(p, ty, sum_list (map txn_amount g))])"

definition group_rows ::
  "(date \<Rightarrow> 'p::linorder) \<Rightarrow> Transaction list \<Rightarrow> ('p \<times> TransactionType \<times> rat) list" where
  "group_rows date_part txns =
     concat (map (\<lambda>p. group_row date_part txns p INCOME @ group_row date_part txns p EXPENSE
                       @ group_row date_part txns p TRANSFER)
       (sort (remdups (map (\<lambda>t. date_part (txn_date t)) txns))))"

subsection \<open>income_expense_report\<close>

record 'p period_entry =
  period :: 'p
  income :: rat
  expense :: rat
  net :: rat

record 'p income_expense =
  ie_data :: "'p period_entry list"
  ie_total_income :: rat
  ie_total_expense :: rat
  ie_net_income :: rat
  ie_start_date :: date
  ie_end_date :: date
  ie_group_by :: string

text \<open>
  One pass of the loop over the rows: the entry of the period is made when the period is
  new, a row of type income is added to \<open>income\<close>, a row of any other type to \<open>expense\<close>,
  and \<open>net\<close> is set again. \<open>result\<close> keeps the entries in the order of their insertion.
\<close>

definition add_to_entry :: "TransactionType \<Rightarrow> rat \<Rightarrow> 'p period_entry \<Rightarrow> 'p period_entry" where
  "add_to_entry txn_ty amt e =
     (let e1 = (if txn_ty = INCOME then e\<lparr>income := income e + amt\<rparr>
                else e\<lparr>expense := expense e + amt\<rparr>)
      in e1\<lparr>net := income e1 - expense e1\<rparr>)"

fun process_row ::
  "'p \<Rightarrow> TransactionType \<Rightarrow> rat \<Rightarrow> 'p period_entry list \<Rightarrow> 'p period_entry list" where
  "process_row p txn_ty amt [] =
     [add_to_entry txn_ty amt \<lparr>period = p, income = 0, expense = 0, net = 0\<rparr>]"
| "process_row p txn_ty amt (e # es) =
     (if period e = p then add_to_entry txn_ty amt e # es
      else e # process_row p txn_ty amt es)"

definition process_rows :: "('p \<times> TransactionType \<times> rat) list \<Rightarrow> 'p period_entry list" where
  "process_rows rows = fold (\<lambda>(p, txn_ty, amt). process_row p txn_ty amt) rows []"

text \<open>
  The handler. \<open>today\<close> is \<open>datetime.utcnow().date()\<close>; \<open>date_part\<close> gives, for a value of
  group_by, the expression that the store evaluates on the date of a transaction
  (\<open>extract('year', ...)\<close>, \<open>to_char(..., 'YYYY-MM')\<close>, \<open>to_char(..., 'IYYY-IW')\<close>,
  \<open>date(...)\<close>).
\<close>

definition income_expense_report ::
  "(string \<Rightarrow> date \<Rightarrow> 'p::linorder) \<Rightarrow> db \<Rightarrow> date \<Rightarrow> nat \<Rightarrow> date field \<Rightarrow> date field
     \<Rightarrow> string option \<Rightarrow> error + 'p income_expense" where
  "income_expense_report date_part s today current_user_id start_arg end_arg group_by_arg =
     (let group_by = (case group_by_arg of None \<Rightarrow> ''month'' | Some g \<Rightarrow> g)
      in if group_by \<notin> set [''day'', ''week'', ''month'', ''year''] then Inl InvalidGroupBy
         else
           (case (if start_arg = Absent \<or> end_arg = Absent
                  then Inr (today\<lparr>month := 1, day := 1\<rparr>, today)
                  else (case (start_arg, end_arg) of
                          (Value a, Value b) \<Rightarrow> Inr (a, b)
                        | _ \<Rightarrow> Inl InvalidDateFormat)) of
              Inl e \<Rightarrow> Inl e
            | Inr (start_date, end_date) \<Rightarrow>
                (let rows = group_rows (date_part group_by)
                              (user_transactions s current_user_id start_date end_date);
                     report_data = sort_key period (process_rows rows);
                     total_income = sum_list (map income report_data);
                     total_expense = sum_list (map expense report_data)
                 in Inr \<lparr>ie_data = report_data, ie_total_income = total_income,
                         ie_total_expense = total_expense,
                         ie_net_income = total_income - total_expense,
                         ie_start_date = start_date, ie_end_date = end_date,
                         ie_group_by = group_by\<rparr>)))"

subsection \<open>Dates of the standard library\<close>

text \<open>
  \<open>datetime.date\<close> counts days in the proleptic Gregorian calendar; day 1 is 0001-01-01
  and the last day is 9999-12-31. The functions follow the library's \<open>_ymd2ord\<close> and
  \<open>_ord2ymd\<close>.
\<close>

definition is_leap :: "int \<Rightarrow> bool" where
  "is_leap y \<longleftrightarrow> y mod 4 = 0 \<and> (y mod 100 \<noteq> 0 \<or> y mod 400 = 0)"

definition days_before_year :: "int \<Rightarrow> int" where
  "days_before_year y = (let y1 = y - 1 in y1 * 365 + y1 div 4 - y1 div 100 + y1 div 400)"

definition DAYS_IN_MONTH :: "int list" where
  "DAYS_IN_MONTH = [-1, 31, 28, 31, 30, 31, 30, 31, 31, 30, 31, 30, 31]"

definition DAYS_BEFORE_MONTH :: "int list" where
  "DAYS_BEFORE_MONTH = [-1, 0, 31, 59, 90, 120, 151, 181, 212, 243, 273, 304, 334]"

definition days_in_month :: "int \<Rightarrow> int \<Rightarrow> int" where
  "days_in_month y m = (if m = 2 \<and> is_leap y then 29 else DAYS_IN_MONTH ! nat m)"

definition days_before_month :: "int \<Rightarrow> int \<Rightarrow> int" where
  "days_before_month y m = DAYS_BEFORE_MONTH ! nat m + (if m > 2 \<and> is_leap y then 1 else 0)"

text \<open>The dates that a \<open>date\<close> object can hold.\<close>

definition valid_date :: "date \<Rightarrow> bool" where
  "valid_date d \<longleftrightarrow> 1 \<le> year d \<and> year d \<le> 9999 \<and> 1 \<le> month d \<and> month d \<le> 12
     \<and> 1 \<le> day d \<and> day d \<le> days_in_month (year d) (month d)"

definition toordinal :: "date \<Rightarrow> int" where
  "toordinal d = days_before_year (year d) + days_before_month (year d) (month d) + day d"

text \<open>
  The end of \<open>_ord2ymd\<close>: month and day from the year, whether it is a leap year, and
  the day of the year counted from 0.
\<close>

definition month_and_day :: "int \<Rightarrow> bool \<Rightarrow> int \<Rightarrow> date" where
  "month_and_day y leapyear n =
     (let m = (n + 50) div 32;
          preceding = DAYS_BEFORE_MONTH ! nat m + (if m > 2 \<and> leapyear then 1 else 0)
      in if preceding > n
         then (let m1 = m - 1;
                   preceding1 = preceding
                     - (DAYS_IN_MONTH ! nat m1 + (if m1 = 2 \<and> leapyear then 1 else 0))
               in \<lparr>year = y, month = m1, day = n - preceding1 + 1\<rparr>)
         else \<lparr>year = y, month = m, day = n - preceding + 1\<rparr>)"

definition fromordinal :: "int \<Rightarrow> date" where
  "fromordinal n0 =
     (let n = n0 - 1;
          n400 = n div 146097; n = n mod 146097;
          y = n400 * 400 + 1;
          n100 = n div 36524; n = n mod 36524;
          n4 = n div 1461; n = n mod 1461;
          n1 = n div 365; n = n mod 365;
          y = y + n100 * 100 + n4 * 4 + n1
      in if n1 = 4 \<or> n100 = 4 then \<lparr>year = y - 1, month = 12, day = 31\<rparr>
         else month_and_day y (n1 = 3 \<and> (n4 \<noteq> 24 \<or> n100 = 3)) n)"

text \<open>\<open>d - timedelta(days=n)\<close>: OverflowError when the result is not a date.\<close>

definition date_minus_days :: "date \<Rightarrow> int \<Rightarrow> error + date" where
  "date_minus_days d n =
     (let o1 = toordinal d - n
      in if 0 < o1 \<and> o1 \<le> 3652059 then Inr (fromordinal o1) else Inl DateOutOfRange)"

text \<open>\<open>to_char(date, 'YYYY-MM')\<close> of the store: the year on four digits.\<close>

definition year_month :: "date \<Rightarrow> string" where
  "year_month d = zfill 4 (str_nat (nat (year d))) @ ''-'' @ zfill 2 (str_nat (nat (month d)))"

text \<open>
  \<open>strftime('%Y-%m')\<close> of the handler: the C library writes the year without padding, so
  a year below 1000 has fewer than four digits.
\<close>

definition strftime_year_month :: "date \<Rightarrow> string" where
  "strftime_year_month d = str_nat (nat (year d)) @ ''-'' @ zfill 2 (str_nat (nat (month d)))"

subsection \<open>cash_flow_report\<close>

record cash_entry = "string period_entry" +
  running_balance :: rat

record cash_flow =
  cf_data :: "cash_entry list"
  cf_total_income :: rat
  cf_total_expense :: rat
  cf_net_cash_flow :: rat
  cf_ending_balance :: rat
  cf_start_date :: date
  cf_end_date :: date

text \<open>
  The loop that lists the periods. \<open>replace\<close> raises ValueError when the year passes
  9999 or the month is not one of 1..12.
\<close>

function periods_from :: "date \<Rightarrow> date \<Rightarrow> error + string list" where
  "periods_from current end_date =
     (if date_le current end_date then
        (if month current = 12 then
           (if year current + 1 \<le> 9999 then
              (case periods_from (current\<lparr>year := year current + 1, month := 1, day := 1\<rparr>) end_date of
                 Inl e \<Rightarrow> Inl e
               | Inr ps \<Rightarrow> Inr (strftime_year_month current # ps))
            else Inl DateOutOfRange)
         else if 1 \<le> month current + 1 \<and> month current + 1 \<le> 12 then
           (case periods_from (current\<lparr>month := month current + 1, day := 1\<rparr>) end_date of
              Inl e \<Rightarrow> Inl e
            | Inr ps \<Rightarrow> Inr (strftime_year_month current # ps))
         else Inl DateOutOfRange)
      else Inr [])"
  by pat_completeness auto
termination
  by (relation "measure (\<lambda>(c, e). nat (12 * year e + 13 - (12 * year c + month c)))")
     (auto simp: date_le_def date_less_def)

declare periods_from.simps [simp del]

text \<open>\<open>periods.index(month)\<close>, or \<open>None\<close> where it raises ValueError.\<close>

fun index_of :: "'a list \<Rightarrow> 'a \<Rightarrow> nat option" where
  "index_of [] x = None"
| "index_of (y # ys) x = (if y = x then Some 0 else map_option Suc (index_of ys x))"

definition set_entry :: "TransactionType \<Rightarrow> rat \<Rightarrow> cash_entry \<Rightarrow> cash_entry" where
  "set_entry txn_ty amt e =
     (let e1 = (if txn_ty = INCOME then e\<lparr>income := amt\<rparr> else e\<lparr>expense := amt\<rparr>)
      in e1\<lparr>net := income e1 - expense e1\<rparr>)"

fun fill_in :: "string list \<Rightarrow> (string \<times> TransactionType \<times> rat) list \<Rightarrow> cash_entry list \<Rightarrow> cash_entry list" where
  "fill_in periods [] cash = cash"
| "fill_in periods ((m, txn_ty, amt) # rows) cash =
     (case index_of periods m of
        None \<Rightarrow> fill_in periods rows cash
      | Some idx \<Rightarrow> fill_in periods rows (cash[idx := set_entry txn_ty amt (cash ! idx)]))"

fun add_running_balance :: "rat \<Rightarrow> cash_entry list \<Rightarrow> cash_entry list" where
  "add_running_balance b [] = []"
| "add_running_balance b (e # es) =
     e\<lparr>running_balance := b + net e\<rparr> # add_running_balance (b + net e) es"

definition cash_flow_report ::
  "db \<Rightarrow> date \<Rightarrow> nat \<Rightarrow> date field \<Rightarrow> int option \<Rightarrow> error + cash_flow" where
  "cash_flow_report s today current_user_id end_arg months_arg =
     (let months = (case months_arg of None \<Rightarrow> 12 | Some k \<Rightarrow> k)
      in case (case end_arg of Absent \<Rightarrow> Inr today | Malformed \<Rightarrow> Inl InvalidDateFormat
                 | Value d \<Rightarrow> Inr d) of
           Inl e \<Rightarrow> Inl e
         | Inr end_date \<Rightarrow>
             if months \<le> 0 then Inl InvalidMonths
             else (case date_minus_days end_date (30 * months) of
                Inl e \<Rightarrow> Inl e
              | Inr d0 \<Rightarrow>
                  (let start_date = d0\<lparr>day := 1\<rparr>
                   in case periods_from start_date end_date of
                        Inl e \<Rightarrow> Inl e
                      | Inr periods \<Rightarrow>
                          (let monthly_data = group_rows year_month
                                 (user_transactions s current_user_id start_date end_date);
                               cash = map (\<lambda>p. \<lparr>period = p, income = 0, expense = 0, net = 0,
                                                 running_balance = 0\<rparr>) periods;
                               cash1 = fill_in periods monthly_data cash;
                               cash2 = add_running_balance 0 cash1
                           in Inr \<lparr>cf_data = cash2,
                                   cf_total_income = sum_list (map income cash2),
                                   cf_total_expense = sum_list (map expense cash2),
                                   cf_net_cash_flow = sum_list (map net cash2),
                                   cf_ending_balance = fold (\<lambda>e b. b + net e) cash1 0,
                                   cf_start_date = start_date, cf_end_date = end_date\<rparr>))))"

section \<open>Predicates and example data for the properties\<close>

definition totals_ok :: "Invoice \<Rightarrow> bool" where
  "totals_ok i \<longleftrightarrow>
     subtotal i = sum_list (map amount (items i)) \<and>
     tax_amount i = subtotal i * (tax_rate i / 100) \<and>
     total i = subtotal i + tax_amount i \<and>
     amount_due i = total i - amount_paid i"

definition amount_ok :: "InvoiceItem \<Rightarrow> bool" where
  "amount_ok it \<longleftrightarrow> amount it = quantity it * unit_price it * (1 + item_tax_rate it / 100)"

definition item_of_data :: "item_data \<Rightarrow> InvoiceItem \<Rightarrow> bool" where
  "item_of_data d it \<longleftrightarrow>
     i_description d = Some (description it) \<and> i_quantity d = Some (quantity it) \<and>
     i_unit_price d = Some (unit_price it) \<and>
     item_tax_rate it = (case i_tax_rate d of None \<Rightarrow> 0 | Some r \<Rightarrow> r) \<and>
     amount it = quantity it * unit_price it * (1 + item_tax_rate it / 100)"

definition example_date :: date where
  "example_date = \<lparr>year = 2024, month = 3, day = 15\<rparr>"

definition scenario_items :: "item_data list" where
  "scenario_items =
     [\<lparr>i_id = None, i_description = Some ''design'', i_quantity = Some 2,
       i_unit_price = Some 100, i_tax_rate = Some 10\<rparr>,
      \<lparr>i_id = None, i_description = Some ''hosting'', i_quantity = Some 1,
       i_unit_price = Some 50, i_tax_rate = Some 0\<rparr>]"

definition empty_data :: invoice_data where
  "empty_data = \<lparr>d_client_id = None, d_project_id = None, d_issue_date = Absent,
     d_due_date = Absent, d_status = None, d_currency = None, d_tax_rate = None,
     d_notes = None, d_terms = None, d_items = None, d_other = []\<rparr>"


definition example_invoice :: "InvoiceStatus \<Rightarrow> Invoice" where
  "example_invoice st =
     \<lparr>inv_id = 1, invoice_number = ''INV-202403-0001'', issue_date = example_date,
      due_date = example_date, status = st, inv_notes = None, terms = None, tax_rate = 0,
      subtotal = 270, tax_amount = 0, total = 270, amount_paid = 0, amount_due = 270,
      currency = ''USD'', user_id = 7, client_id = 1, project_id = None,
      items = [\<lparr>item_id = Some 1, description = ''design'', quantity = 2, unit_price = 100,
                 item_tax_rate = 10, amount = 220\<rparr>,
               \<lparr>item_id = Some 2, description = ''hosting'', quantity = 1, unit_price = 50,
                 item_tax_rate = 0, amount = 50\<rparr>]\<rparr>"

definition example_db :: "InvoiceStatus \<Rightarrow> db" where
  "example_db st = \<lparr>invoices = [example_invoice st], transactions = []\<rparr>"

definition example_txn :: "nat \<Rightarrow> date \<Rightarrow> rat \<Rightarrow> TransactionType \<Rightarrow> Transaction" where
  "example_txn n d a ty =
     \<lparr>txn_id = n, txn_date = d, txn_amount = a, txn_description = ''entry'', txn_reference = None,
      is_reconciled = False, txn_type = ty,
      category = (if ty = INCOME then SERVICE else OTHER_EXPENSE),
      txn_user_id = 7, txn_project_id = None, txn_invoice_id = None\<rparr>"

definition example_ledger :: db where
  "example_ledger =
     \<lparr>invoices = [],
      transactions =
        [example_txn 1 \<lparr>year = 2024, month = 3, day = 5\<rparr> 100 INCOME,
         example_txn 2 \<lparr>year = 2024, month = 3, day = 9\<rparr> 30 EXPENSE,
         example_txn 3 \<lparr>year = 2024, month = 3, day = 9\<rparr> 5 TRANSFER]\<rparr>"

text \<open>
  Calendar months counted from year 0: the list of the months from the month of one date
  through the month of another, each as its first day.
\<close>

definition month_index :: "date \<Rightarrow> int" where
  "month_index d = 12 * year d + (month d - 1)"

definition month_of_index :: "int \<Rightarrow> date" where
  "month_of_index i = \<lparr>year = i div 12, month = i mod 12 + 1, day = 1\<rparr>"

definition months_through :: "date \<Rightarrow> date \<Rightarrow> date list" where
  "months_through a b = map month_of_index [month_index a .. month_index b]"

text \<open>
  The period list in the words of the specification: the calendar months from the first
  day of the month that is \<open>months\<close> months before \<open>end_date\<close>, through \<open>end_date\<close>.
\<close>

definition spec_start :: "date \<Rightarrow> int \<Rightarrow> date" where
  "spec_start end_date months = month_of_index (month_index end_date - months)"

definition spec_periods :: "date \<Rightarrow> int \<Rightarrow> string list" where
  "spec_periods end_date months = map year_month (months_through (spec_start end_date months) end_date)"

definition march_ledger :: db where
  "march_ledger =
     \<lparr>invoices = [],
      transactions =
        [example_txn 1 \<lparr>year = 2024, month = 3, day = 5\<rparr> 100 INCOME,
         example_txn 2 \<lparr>year = 2024, month = 3, day = 9\<rparr> 30 EXPENSE]\<rparr>"


definition support_item :: "item_data" where
  "support_item = \<lparr>i_id = None, i_description = Some ''support'', i_quantity = Some 1,
                     i_unit_price = Some 1, i_tax_rate = Some (2 / 5)\<rparr>"

definition fraction_items :: "item_data list" where
  "fraction_items = [support_item, support_item, support_item]"


definition taxed_invoice :: Invoice where
  "taxed_invoice =
     (example_invoice DRAFT)
       \<lparr>tax_rate := 2 / 5, subtotal := 1, tax_amount := 0, total := 1, amount_paid := 0,
        amount_due := 1,
        items := [\<lparr>item_id = Some 1, description = ''support'', quantity = 1, unit_price = 1,
                   item_tax_rate = 0, amount = 1\<rparr>]\<rparr>"

section \<open>Rounding to the scale of the columns\<close>

lemma floor_rat_numeral: "\<lfloor>numeral a / numeral b :: rat\<rfloor> = numeral a div numeral b"
  by (metis floor_divide_of_int_eq of_int_numeral)

lemma floor_rat_half: "\<lfloor>1 / 2 :: rat\<rfloor> = 0"
  by (simp add: floor_eq_iff)

lemma round_cents_examples:
  "round_cents 100 = 100" "round_cents 270 = 270" "round_cents 0 = 0" "round_cents 170 = 170"
  "round_cents (1287 / 4000) = 8 / 25" "round_cents (251 / 250) = 1" "round_cents (753 / 250) = 301 / 100"
  "round_cents (- 130) = - 130" "round_cents (1 / 125) = 1 / 100" "round_cents (249 / 250) = 1"
  by (simp_all add: round_cents_def floor_rat_numeral floor_rat_half)

lemma floor_half_close:
  fixes y :: rat
  shows "\<bar>of_int \<lfloor>y + 1 / 2\<rfloor> - y\<bar> \<le> 1 / 2"
proof -
  have "of_int \<lfloor>y + 1 / 2\<rfloor> \<le> y + 1 / 2" "y + 1 / 2 < of_int \<lfloor>y + 1 / 2\<rfloor> + 1"
    by linarith+
  then show ?thesis by linarith
qed

lemma round_cents_close: "\<bar>round_cents x - x\<bar> \<le> 1 / 200"
proof (cases "0 \<le> x")
  case True
  from floor_half_close [of "x * 100"]
  have "\<bar>of_int \<lfloor>x * 100 + 1 / 2\<rfloor> / 100 - x\<bar> \<le> 1 / 200"
    by linarith
  with True show ?thesis
    by (simp add: round_cents_def)
next
  case False
  from floor_half_close [of "- x * 100"]
  have "\<bar>- (of_int \<lfloor>- x * 100 + 1 / 2\<rfloor> / 100) - x\<bar> \<le> 1 / 200"
    by linarith
  with False show ?thesis
    by (simp add: round_cents_def)
qed

lemma round_cents_int: "\<exists>k::int. round_cents x = of_int k / 100"
proof (cases "0 \<le> x")
  case True
  then show ?thesis by (auto simp: round_cents_def)
next
  case False
  then have "round_cents x = of_int (- \<lfloor>- x * 100 + 1 / 2\<rfloor>) / 100"
    by (simp add: round_cents_def)
  then show ?thesis by blast
qed

lemma round_cents_sum_within_one:
  "\<bar>round_cents (a + b) - (round_cents a + round_cents b)\<bar> \<le> 1 / 100"
proof -
  obtain k l m :: int where k: "round_cents a = of_int k / 100" and l: "round_cents b = of_int l / 100"
    and m: "round_cents (a + b) = of_int m / 100"
    using round_cents_int by meson
  from round_cents_close [of a] round_cents_close [of b] round_cents_close [of "a + b"]
  have "\<bar>round_cents (a + b) - (round_cents a + round_cents b)\<bar> \<le> 3 / 200"
    by linarith
  then have "\<bar>(of_int (m - k - l) :: rat) / 100\<bar> \<le> 3 / 200"
    by (simp add: k l m diff_divide_distrib add_divide_distrib algebra_simps)
  then have "\<bar>(of_int (m - k - l) :: rat)\<bar> < of_int 2"
    by simp
  then have "\<bar>m - k - l\<bar> < 2"
    by (simp only: of_int_abs [symmetric] of_int_less_iff)
  then have "\<bar>m - k - l\<bar> \<le> 1" by simp
  then have "\<bar>(of_int (m - k - l) :: rat)\<bar> \<le> 1"
    by (simp only: of_int_abs [symmetric] of_int_le_1_iff)
  then have "\<bar>(of_int (m - k - l) :: rat) / 100\<bar> \<le> 1 / 100"
    by simp
  then show ?thesis
    by (simp add: k l m diff_divide_distrib add_divide_distrib algebra_simps)
qed

lemma round_cents_diff_within_one:
  "\<bar>round_cents (a - b) - (round_cents a - round_cents b)\<bar> \<le> 1 / 100"
proof -
  from round_cents_sum_within_one [of "a - b" b]
  have "\<bar>round_cents a - (round_cents (a - b) + round_cents b)\<bar> \<le> 1 / 100"
    by simp
  then show ?thesis by linarith
qed

lemma round_cents_more:
  "round_cents 2 = 2" "round_cents 10 = 10" "round_cents 1 = 1" "round_cents 50 = 50"
  "round_cents 220 = 220" "round_cents (2 / 5) = 2 / 5" "round_cents (117 / 100) = 117 / 100"
  "round_cents (1 / 4) = 1 / 4"
  by (simp_all add: round_cents_def floor_rat_numeral floor_rat_half)

section \<open>Properties of calculate_totals\<close>

lemma calculate_totals_subtotal:
  "subtotal (calculate_totals invoice) = sum_list (map amount (items invoice))"
  by (simp add: calculate_totals_def Let_def)

lemma calculate_totals_tax_amount:
  "tax_amount (calculate_totals invoice) = sum_list (map amount (items invoice)) * (tax_rate invoice / 100)"
  by (simp add: calculate_totals_def Let_def)

lemma calculate_totals_total:
  "total (calculate_totals invoice) =
     sum_list (map amount (items invoice)) + sum_list (map amount (items invoice)) * (tax_rate invoice / 100)"
  by (simp add: calculate_totals_def Let_def)

lemma calculate_totals_amount_due:
  "amount_due (calculate_totals invoice) =
     sum_list (map amount (items invoice)) + sum_list (map amount (items invoice)) * (tax_rate invoice / 100)
       - amount_paid invoice"
  by (simp add: calculate_totals_def Let_def)

lemma calculate_totals_keeps:
  "items (calculate_totals invoice) = items invoice"
  "tax_rate (calculate_totals invoice) = tax_rate invoice"
  "amount_paid (calculate_totals invoice) = amount_paid invoice"
  "inv_id (calculate_totals invoice) = inv_id invoice"
  "user_id (calculate_totals invoice) = user_id invoice"
  "project_id (calculate_totals invoice) = project_id invoice"
  "invoice_number (calculate_totals invoice) = invoice_number invoice"
  "inv_notes (calculate_totals invoice) = inv_notes invoice"
  "terms (calculate_totals invoice) = terms invoice"
  by (simp_all add: calculate_totals_def Let_def)

text \<open>
  Claim C5. calculate_totals sets the status from the amount due that it recomputes from
  the items, the tax rate and the amount paid: with
  due = sum of the item amounts + sum of the item amounts * tax_rate / 100 - amount_paid,
  the amount_due of the result is due, and the status of the result is PAID when due is
  at most 0, otherwise PARTIALLY_PAID when amount_paid is positive, otherwise the status
  the invoice had.
\<close>

theorem calculate_totals_status:
  "amount_due (calculate_totals invoice) =
     sum_list (map amount (items invoice))
       + sum_list (map amount (items invoice)) * (tax_rate invoice / 100) - amount_paid invoice \<and>
   status (calculate_totals invoice) =
     (if sum_list (map amount (items invoice))
           + sum_list (map amount (items invoice)) * (tax_rate invoice / 100) - amount_paid invoice \<le> 0
      then PAID
      else if amount_paid invoice > 0 then PARTIALLY_PAID
      else status invoice)"
  by (simp add: calculate_totals_def Let_def)

section \<open>Invoice totals after update_invoice and record_payment\<close>

lemma totals_ok_calculate_totals: "totals_ok (calculate_totals invoice)"
  by (simp add: totals_ok_def calculate_totals_def Let_def)

lemma amount_assign_ids: "map amount (assign_ids n its) = map amount its"
  by (induction its arbitrary: n) (auto split: option.splits)

lemma totals_ok_assign_ids:
  "totals_ok invoice \<Longrightarrow> totals_ok (invoice\<lparr>items := assign_ids n (items invoice)\<rparr>)"
  by (simp add: totals_ok_def amount_assign_ids)

lemma totals_ok_committed:
  "totals_ok ((calculate_totals j)\<lparr>items := assign_ids n (items (calculate_totals j))\<rparr>)"
  by (rule totals_ok_assign_ids) (rule totals_ok_calculate_totals)

lemma calculate_totals_with_Inr:
  "calculate_totals_with rate paid invoice = Inr i \<Longrightarrow>
   \<exists>r p. rate = Decimal r \<and> paid = Decimal p \<and> i = calculate_totals (invoice\<lparr>tax_rate := r, amount_paid := p\<rparr>)"
  by (auto simp: calculate_totals_with_def split: number.splits)

lemma calculate_totals_with_None: "calculate_totals_with rate NoneValue invoice = Inl TypeError"
  by (simp add: calculate_totals_with_def split: number.splits)

lemma calculate_totals_with_Float: "calculate_totals_with (Float v) paid invoice = Inl TypeError"
  by (simp add: calculate_totals_with_def)

text \<open>create_invoice never adds an invoice.\<close>

lemma create_invoice_fails: "\<exists>e. create_invoice s today uid data = (s, Inl e)"
  by (auto simp: create_invoice_def Let_def calculate_totals_with_None
      split: option.splits field.splits sum.splits)

lemma create_invoice_valid_fails:
  assumes "d_client_id data = Some cid" "d_issue_date data = Value issue" "d_due_date data = Value due"
    "\<not> date_less due issue" "d_items data = Some ds" "ds \<noteq> []" "create_items ds = Inr its"
  shows "create_invoice s today uid data = (s, Inl CreateFailed)"
  using assms by (simp add: create_invoice_def Let_def calculate_totals_with_None)

lemma route_record_payment_fails: "\<exists>e. route_record_payment s uid invoice_id data = (s, Inl e)"
  by (auto simp: route_record_payment_def decimal_add_def split: field.splits option.splits)

lemma update_dates_items: "update_dates invoice data = Inr i \<Longrightarrow> items i = items invoice"
  by (auto simp: update_dates_def split: field.splits if_splits sum.splits)

lemma update_status_items: "update_status invoice data = Inr i \<Longrightarrow> items i = items invoice"
  by (auto simp: update_status_def split: option.splits)

lemma update_optional_fields_items: "items (update_optional_fields invoice data) = items invoice"
  by (simp add: update_optional_fields_def set_optional_def split: option.splits)

lemma update_invoice_Inr:
  assumes "update_invoice s invoice data = (s', Inr i)"
  shows "\<exists>j. i = as_stored ((calculate_totals j)\<lparr>items := assign_ids (fresh_id (all_item_ids s)) (items (calculate_totals j))\<rparr>)
          \<and> s' = save_invoice s i \<and> d_tax_rate data = None
          \<and> (case d_items data of None \<Rightarrow> items j = items invoice
               | Some ds \<Rightarrow> update_items (items_by_id (items invoice)) ds = Inr (items j))"
proof -
  from assms obtain i2 i3 i5 i6 where
    1: "update_dates invoice data = Inr i2" and 2: "update_status i2 data = Inr i3"
    and 3: "replace_items (update_optional_fields i3 data) data = Inr i5"
    and 4: "calculate_totals_with (tax_rate_attribute i5 data) (Decimal (amount_paid i5)) i5 = Inr i6"
    and i: "i = as_stored (i6\<lparr>items := assign_ids (fresh_id (all_item_ids s)) (items i6)\<rparr>)"
    and s: "s' = save_invoice s i"
    by (auto simp: update_invoice_def Let_def split: sum.splits)
  from 4 have t: "d_tax_rate data = None"
    by (auto simp: tax_rate_attribute_def calculate_totals_with_Float split: option.splits)
  with 4 have 6: "i6 = calculate_totals i5"
    by (simp add: tax_rate_attribute_def calculate_totals_with_def)
  have it: "items (update_optional_fields i3 data) = items invoice"
    using update_dates_items [OF 1] update_status_items [OF 2]
    by (simp add: update_optional_fields_items)
  from 3 it have "case d_items data of None \<Rightarrow> items i5 = items invoice
               | Some ds \<Rightarrow> update_items (items_by_id (items invoice)) ds = Inr (items i5)"
    by (auto simp: replace_items_def split: option.splits sum.splits)
  with i s t 6 show ?thesis by blast
qed

lemma update_invoice_Inl:
  "update_invoice s invoice data = (s', Inl e) \<Longrightarrow> s' = s"
  by (auto simp: update_invoice_def Let_def split: sum.splits)

lemma record_payment_Inr:
  assumes "record_payment s invoice a d = (s', Inr (i, t))"
  shows "i = as_stored (calculate_totals (invoice\<lparr>amount_paid := amount_paid invoice + a\<rparr>))
         \<and> s' = add_transaction (save_invoice s i) t \<and> 0 < a \<and> a \<le> amount_due invoice"
  using assms by (auto simp: record_payment_def Let_def split: if_splits)

lemma record_payment_Inl:
  "record_payment s invoice a d = (s', Inl e) \<Longrightarrow> s' = s"
  by (auto simp: record_payment_def Let_def split: if_splits)

lemma as_stored_within_one:
  assumes "totals_ok j"
  shows "\<bar>total (as_stored j) - (subtotal (as_stored j) + tax_amount (as_stored j))\<bar> \<le> 1 / 100"
    and "\<bar>amount_due (as_stored j) - (total (as_stored j) - amount_paid (as_stored j))\<bar> \<le> 1 / 100"
  using assms round_cents_sum_within_one [of "subtotal j" "tax_amount j"]
    round_cents_diff_within_one [of "total j" "amount_paid j"]
  by (simp_all add: totals_ok_def as_stored_def)

text \<open>
  Claim C1, for update_invoice and record_payment of the service. When either returns an
  invoice, the store it leaves is the store with that invoice written (and, for a payment,
  the transaction added), and the invoice is the rounding to cents, field by field, of an
  invoice on which the four equations hold exactly: subtotal = sum of the item amounts,
  tax_amount = subtotal * tax_rate / 100, total = subtotal + tax_amount and
  amount_due = total - amount_paid. On the returned invoice itself total differs from
  subtotal + tax_amount by at most 0.01, and amount_due from total - amount_paid by at
  most 0.01.
\<close>

theorem totals_after_mutation:
  "(update_invoice s invoice data = (s', Inr i) \<longrightarrow>
      s' = save_invoice s i \<and> (\<exists>j. totals_ok j \<and> i = as_stored j) \<and>
      \<bar>total i - (subtotal i + tax_amount i)\<bar> \<le> 1 / 100 \<and>
      \<bar>amount_due i - (total i - amount_paid i)\<bar> \<le> 1 / 100) \<and>
   (record_payment s invoice a d = (s', Inr (i, t)) \<longrightarrow>
      s' = add_transaction (save_invoice s i) t \<and> (\<exists>j. totals_ok j \<and> i = as_stored j) \<and>
      \<bar>total i - (subtotal i + tax_amount i)\<bar> \<le> 1 / 100 \<and>
      \<bar>amount_due i - (total i - amount_paid i)\<bar> \<le> 1 / 100)"
proof (intro conjI impI)
  assume "update_invoice s invoice data = (s', Inr i)"
  from update_invoice_Inr [OF this] obtain j where
    i: "i = as_stored ((calculate_totals j)\<lparr>items := assign_ids (fresh_id (all_item_ids s)) (items (calculate_totals j))\<rparr>)"
    and s: "s' = save_invoice s i"
    by blast
  from s show "s' = save_invoice s i" .
  from i totals_ok_committed show e: "\<exists>j. totals_ok j \<and> i = as_stored j"
    by blast
  from e as_stored_within_one show "\<bar>total i - (subtotal i + tax_amount i)\<bar> \<le> 1 / 100"
    "\<bar>amount_due i - (total i - amount_paid i)\<bar> \<le> 1 / 100"
    by blast+
next
  assume "record_payment s invoice a d = (s', Inr (i, t))"
  from record_payment_Inr [OF this] have
    i: "i = as_stored (calculate_totals (invoice\<lparr>amount_paid := amount_paid invoice + a\<rparr>))"
    and s: "s' = add_transaction (save_invoice s i) t"
    by blast+
  from s show "s' = add_transaction (save_invoice s i) t" .
  from i totals_ok_calculate_totals show e: "\<exists>j. totals_ok j \<and> i = as_stored j"
    by blast
  from e as_stored_within_one show "\<bar>total i - (subtotal i + tax_amount i)\<bar> \<le> 1 / 100"
    "\<bar>amount_due i - (total i - amount_paid i)\<bar> \<le> 1 / 100"
    by blast+
qed

lemma update_fraction_items:
  "\<exists>s' i. update_invoice (example_db DRAFT) (example_invoice DRAFT)
            (empty_data\<lparr>d_items := Some fraction_items\<rparr>) = (s', Inr i) \<and>
          subtotal i = 301 / 100 \<and> map amount (items i) = [1, 1, 1]"
  by (simp add: update_invoice_def update_dates_def update_status_def replace_items_def
      update_optional_fields_def set_optional_def tax_rate_attribute_def calculate_totals_with_def
      empty_data_def fraction_items_def support_item_def build_item_def Let_def
      example_invoice_def calculate_totals_def as_stored_def as_stored_item_def
      round_cents_examples round_cents_more)

lemma record_payment_taxed:
  "\<exists>s' i t. record_payment \<lparr>invoices = [taxed_invoice], transactions = []\<rparr> taxed_invoice (249 / 250)
               example_date = (s', Inr (i, t)) \<and>
             total i = 1 \<and> amount_paid i = 1 \<and> amount_due i = 1 / 100"
  by (simp add: record_payment_def taxed_invoice_def example_invoice_def Let_def
      calculate_totals_def as_stored_def round_cents_examples round_cents_more)

text \<open>
  The equations do not hold exactly on what is stored. Three items of 1 x 1.00 at 0.4 %
  are stored with amount 1.00 each and the invoice with subtotal 3.01; a payment of 0.996
  on an invoice of total 1.00 is stored as amount_paid 1.00 with amount_due 0.01.
\<close>

theorem totals_after_mutation_counterexample:
  "(\<exists>s' i. update_invoice (example_db DRAFT) (example_invoice DRAFT)
             (empty_data\<lparr>d_items := Some fraction_items\<rparr>) = (s', Inr i) \<and>
           subtotal i = 301 / 100 \<and> sum_list (map amount (items i)) = 3 \<and>
           subtotal i \<noteq> sum_list (map amount (items i))) \<and>
   (\<exists>s' i t. record_payment \<lparr>invoices = [taxed_invoice], transactions = []\<rparr> taxed_invoice (249 / 250)
               example_date = (s', Inr (i, t)) \<and>
             total i = 1 \<and> amount_paid i = 1 \<and> amount_due i = 1 / 100 \<and>
             amount_due i \<noteq> total i - amount_paid i)"
proof (rule conjI)
  from update_fraction_items obtain s' i where
    u: "update_invoice (example_db DRAFT) (example_invoice DRAFT)
            (empty_data\<lparr>d_items := Some fraction_items\<rparr>) = (s', Inr i)"
    and v: "subtotal i = 301 / 100" "map amount (items i) = [1, 1, 1]"
    by (elim exE conjE)
  show "\<exists>s' i. update_invoice (example_db DRAFT) (example_invoice DRAFT)
             (empty_data\<lparr>d_items := Some fraction_items\<rparr>) = (s', Inr i) \<and>
           subtotal i = 301 / 100 \<and> sum_list (map amount (items i)) = 3 \<and>
           subtotal i \<noteq> sum_list (map amount (items i))"
    by (rule exI [of _ s'], rule exI [of _ i]) (simp add: u v)
next
  from record_payment_taxed obtain s' i t where
    r: "record_payment \<lparr>invoices = [taxed_invoice], transactions = []\<rparr> taxed_invoice (249 / 250)
               example_date = (s', Inr (i, t))"
    and v: "total i = 1" "amount_paid i = 1" "amount_due i = 1 / 100"
    by (elim exE conjE)
  show "\<exists>s' i t. record_payment \<lparr>invoices = [taxed_invoice], transactions = []\<rparr> taxed_invoice (249 / 250)
               example_date = (s', Inr (i, t)) \<and>
             total i = 1 \<and> amount_paid i = 1 \<and> amount_due i = 1 / 100 \<and>
             amount_due i \<noteq> total i - amount_paid i"
    by (rule exI [of _ s'], rule exI [of _ i], rule exI [of _ t]) (simp add: r v)
qed

lemma record_payment_hundred:
  "\<exists>s' i t. record_payment (example_db DRAFT) (example_invoice DRAFT) 100 example_date = (s', Inr (i, t))"
  by (simp add: record_payment_def example_invoice_def Let_def)

theorem totals_after_mutation_witness:
  "(\<exists>s' i. update_invoice (example_db DRAFT) (example_invoice DRAFT)
             (empty_data\<lparr>d_items := Some fraction_items\<rparr>) = (s', Inr i) \<and>
           s' = save_invoice (example_db DRAFT) i \<and> (\<exists>j. totals_ok j \<and> i = as_stored j) \<and>
           \<bar>total i - (subtotal i + tax_amount i)\<bar> \<le> 1 / 100 \<and>
           \<bar>amount_due i - (total i - amount_paid i)\<bar> \<le> 1 / 100) \<and>
   (\<exists>s' i t. record_payment (example_db DRAFT) (example_invoice DRAFT) 100 example_date = (s', Inr (i, t)) \<and>
           s' = add_transaction (save_invoice (example_db DRAFT) i) t \<and>
           (\<exists>j. totals_ok j \<and> i = as_stored j) \<and>
           \<bar>total i - (subtotal i + tax_amount i)\<bar> \<le> 1 / 100 \<and>
           \<bar>amount_due i - (total i - amount_paid i)\<bar> \<le> 1 / 100)"
proof (rule conjI)
  from update_fraction_items obtain s' i where
    h: "update_invoice (example_db DRAFT) (example_invoice DRAFT)
          (empty_data\<lparr>d_items := Some fraction_items\<rparr>) = (s', Inr i)"
    by (elim exE conjE)
  from totals_after_mutation [where s = "example_db DRAFT" and invoice = "example_invoice DRAFT"
      and data = "empty_data\<lparr>d_items := Some fraction_items\<rparr>" and s' = s' and i = i,
      THEN conjunct1, rule_format, OF h]
  have "s' = save_invoice (example_db DRAFT) i \<and> (\<exists>j. totals_ok j \<and> i = as_stored j) \<and>
           \<bar>total i - (subtotal i + tax_amount i)\<bar> \<le> 1 / 100 \<and>
           \<bar>amount_due i - (total i - amount_paid i)\<bar> \<le> 1 / 100" .
  note k = this
  show "\<exists>s' i. update_invoice (example_db DRAFT) (example_invoice DRAFT)
             (empty_data\<lparr>d_items := Some fraction_items\<rparr>) = (s', Inr i) \<and>
           s' = save_invoice (example_db DRAFT) i \<and> (\<exists>j. totals_ok j \<and> i = as_stored j) \<and>
           \<bar>total i - (subtotal i + tax_amount i)\<bar> \<le> 1 / 100 \<and>
           \<bar>amount_due i - (total i - amount_paid i)\<bar> \<le> 1 / 100"
    by (rule exI [of _ s'], rule exI [of _ i], rule conjI [OF h k])
next
  from record_payment_hundred obtain s' i t where
    h: "record_payment (example_db DRAFT) (example_invoice DRAFT) 100 example_date = (s', Inr (i, t))"
    by (elim exE)
  from totals_after_mutation [where s = "example_db DRAFT" and invoice = "example_invoice DRAFT"
      and a = 100 and d = example_date and t = t and s' = s' and i = i,
      THEN conjunct2, rule_format, OF h]
  have "s' = add_transaction (save_invoice (example_db DRAFT) i) t \<and>
           (\<exists>j. totals_ok j \<and> i = as_stored j) \<and>
           \<bar>total i - (subtotal i + tax_amount i)\<bar> \<le> 1 / 100 \<and>
           \<bar>amount_due i - (total i - amount_paid i)\<bar> \<le> 1 / 100" .
  note k = this
  show "\<exists>s' i t. record_payment (example_db DRAFT) (example_invoice DRAFT) 100 example_date = (s', Inr (i, t)) \<and>
           s' = add_transaction (save_invoice (example_db DRAFT) i) t \<and>
           (\<exists>j. totals_ok j \<and> i = as_stored j) \<and>
           \<bar>total i - (subtotal i + tax_amount i)\<bar> \<le> 1 / 100 \<and>
           \<bar>amount_due i - (total i - amount_paid i)\<bar> \<le> 1 / 100"
    by (rule exI [of _ s'], rule exI [of _ i], rule exI [of _ t], rule conjI [OF h k])
qed

section \<open>Item amounts\<close>

lemma build_item_of_data:
  "i_description d = Some de \<Longrightarrow> i_quantity d = Some q \<Longrightarrow> i_unit_price d = Some p \<Longrightarrow>
   item_of_data d (build_item de q p (i_tax_rate d))"
  by (simp add: item_of_data_def build_item_def Let_def)

lemma create_items_of_data:
  "create_items ds = Inr its \<Longrightarrow> list_all2 item_of_data ds its"
proof (induction ds arbitrary: its)
  case Nil
  then show ?case by simp
next
  case (Cons d ds)
  then show ?case
    by (auto simp: build_item_of_data split: option.splits sum.splits)
qed











section \<open>The lock on paid invoices (PUT /api/invoices/id)\<close>

lemma find_save_invoice:
  assumes "List.find (\<lambda>i. inv_id i = iid \<and> user_id i = uid) xs = Some invoice"
    and "inv_id j = inv_id invoice" and "user_id j = user_id invoice"
  shows "List.find (\<lambda>i. inv_id i = iid \<and> user_id i = uid)
           (map (\<lambda>i. if inv_id i = inv_id j then j else i) xs) = Some j"
  using assms
  by (induction xs) (auto split: if_splits)

lemma find_invoice_save_invoice:
  "find_invoice s iid uid = Some invoice \<Longrightarrow> inv_id j = inv_id invoice \<Longrightarrow>
   user_id j = user_id invoice \<Longrightarrow> find_invoice (save_invoice s j) iid uid = Some j"
  using find_save_invoice [of iid uid "invoices s" invoice j]
  by (simp add: find_invoice_def save_invoice_def)

lemma mem_optional_key: "x \<in> set (if c then [] else [y]) \<longleftrightarrow> \<not> c \<and> x = y"
  by simp

lemma data_keys_present:
  "d_client_id data \<noteq> None \<Longrightarrow> ''client_id'' \<in> set (data_keys data)"
  "d_project_id data \<noteq> None \<Longrightarrow> ''project_id'' \<in> set (data_keys data)"
  "d_issue_date data \<noteq> Absent \<Longrightarrow> ''issue_date'' \<in> set (data_keys data)"
  "d_due_date data \<noteq> Absent \<Longrightarrow> ''due_date'' \<in> set (data_keys data)"
  "d_currency data \<noteq> None \<Longrightarrow> ''currency'' \<in> set (data_keys data)"
  "d_tax_rate data \<noteq> None \<Longrightarrow> ''tax_rate'' \<in> set (data_keys data)"
  "d_items data \<noteq> None \<Longrightarrow> ''items'' \<in> set (data_keys data)"
  by (simp_all add: data_keys_def mem_optional_key split del: if_split)

lemma not_allowed:
  "''client_id'' \<notin> set allowed_updates" "''project_id'' \<notin> set allowed_updates"
  "''issue_date'' \<notin> set allowed_updates" "''due_date'' \<notin> set allowed_updates"
  "''currency'' \<notin> set allowed_updates" "''tax_rate'' \<notin> set allowed_updates"
  "''items'' \<notin> set allowed_updates"
  by (simp_all add: allowed_updates_def)

lemma data_keys_allowed:
  assumes "set (data_keys data) \<subseteq> set allowed_updates"
  shows "d_client_id data = None" "d_project_id data = None" "d_issue_date data = Absent"
    "d_due_date data = Absent" "d_currency data = None" "d_tax_rate data = None"
    "d_items data = None"
  using assms data_keys_present [of data] not_allowed by blast+

lemma update_invoice_allowed:
  assumes "set (data_keys data) \<subseteq> set allowed_updates"
    and "d_status data = None \<or> (\<exists>v st. d_status data = Some v \<and> InvoiceStatus_of v = Some st)"
  shows "\<exists>i. update_invoice s invoice data = (save_invoice s i, Inr i) \<and>
           inv_notes i = (case d_notes data of None \<Rightarrow> inv_notes invoice | Some n \<Rightarrow> Some n) \<and>
           terms i = (case d_terms data of None \<Rightarrow> terms invoice | Some n \<Rightarrow> Some n)"
proof -
  note k = data_keys_allowed [OF assms(1)]
  have 1: "update_dates invoice data = Inr invoice"
    by (simp add: update_dates_def k)
  from assms(2) obtain i3 where 2: "update_status invoice data = Inr i3"
    and n3: "inv_notes i3 = inv_notes invoice" "terms i3 = terms invoice"
    by (auto simp: update_status_def)
  let ?i4 = "update_optional_fields i3 data"
  have n4: "inv_notes ?i4 = (case d_notes data of None \<Rightarrow> inv_notes invoice | Some n \<Rightarrow> Some n)"
    "terms ?i4 = (case d_terms data of None \<Rightarrow> terms invoice | Some n \<Rightarrow> Some n)"
    by (simp_all add: update_optional_fields_def set_optional_def k n3 split: option.splits)
  have 3: "replace_items ?i4 data = Inr ?i4"
    by (simp add: replace_items_def k)
  have 4: "calculate_totals_with (tax_rate_attribute ?i4 data) (Decimal (amount_paid ?i4)) ?i4
             = Inr (calculate_totals ?i4)"
    by (simp add: calculate_totals_with_def tax_rate_attribute_def k)
  let ?i7 = "as_stored ((calculate_totals ?i4)\<lparr>items := assign_ids (fresh_id (all_item_ids s)) (items (calculate_totals ?i4))\<rparr>)"
  have "update_invoice s invoice data = (save_invoice s ?i7, Inr ?i7)"
    by (simp add: update_invoice_def 1 2 3 4 Let_def)
  moreover have "inv_notes ?i7 = inv_notes ?i4" "terms ?i7 = terms ?i4"
    by (simp_all add: as_stored_def calculate_totals_keeps)
  ultimately show ?thesis
    using n4 by metis
qed

text \<open>
  Claim C9. For an invoice that the route finds and whose status is PAID or
  PARTIALLY_PAID: a request with any key other than status, notes and terms (items,
  client_id and the dates among them) is answered with InvoiceLocked and the store is
  unchanged; a request whose keys are all among status, notes and terms, with a status
  value that names a member of InvoiceStatus when the key is present, succeeds and sets
  the notes and terms it carries.
\<close>

theorem paid_invoice_locked:
  assumes "find_invoice s invoice_id uid = Some invoice"
    and "status invoice = PAID \<or> status invoice = PARTIALLY_PAID"
  shows "((\<exists>field \<in> set (data_keys data). field \<notin> {''status'', ''notes'', ''terms''}) \<longrightarrow>
            route_update_invoice s uid invoice_id data = (s, Inl InvoiceLocked)) \<and>
         (d_items data \<noteq> None \<or> d_client_id data \<noteq> None \<or> d_issue_date data \<noteq> Absent
            \<or> d_due_date data \<noteq> Absent \<longrightarrow>
            route_update_invoice s uid invoice_id data = (s, Inl InvoiceLocked)) \<and>
         (set (data_keys data) \<subseteq> {''status'', ''notes'', ''terms''} \<and>
          (d_status data = None \<or> (\<exists>v st. d_status data = Some v \<and> InvoiceStatus_of v = Some st)) \<longrightarrow>
            (\<exists>i. route_update_invoice s uid invoice_id data = (save_invoice s i, Inr i) \<and>
                 inv_notes i = (case d_notes data of None \<Rightarrow> inv_notes invoice | Some n \<Rightarrow> Some n) \<and>
                 terms i = (case d_terms data of None \<Rightarrow> terms invoice | Some n \<Rightarrow> Some n)))"
proof (intro conjI impI)
  assume "\<exists>field \<in> set (data_keys data). field \<notin> {''status'', ''notes'', ''terms''}"
  then have "list_ex (\<lambda>field. field \<notin> set allowed_updates) (data_keys data)"
    by (simp add: list_ex_iff allowed_updates_def)
  with assms show "route_update_invoice s uid invoice_id data = (s, Inl InvoiceLocked)"
    by (simp add: route_update_invoice_def)
next
  assume "d_items data \<noteq> None \<or> d_client_id data \<noteq> None \<or> d_issue_date data \<noteq> Absent
            \<or> d_due_date data \<noteq> Absent"
  then have "list_ex (\<lambda>field. field \<notin> set allowed_updates) (data_keys data)"
    unfolding list_ex_iff using data_keys_present [of data] not_allowed by blast
  with assms show "route_update_invoice s uid invoice_id data = (s, Inl InvoiceLocked)"
    by (simp add: route_update_invoice_def)
next
  assume h: "set (data_keys data) \<subseteq> {''status'', ''notes'', ''terms''} \<and>
          (d_status data = None \<or> (\<exists>v st. d_status data = Some v \<and> InvoiceStatus_of v = Some st))"
  then have k: "set (data_keys data) \<subseteq> set allowed_updates"
    by (simp add: allowed_updates_def)
  then have "\<not> list_ex (\<lambda>field. field \<notin> set allowed_updates) (data_keys data)"
    by (auto simp: list_ex_iff)
  with assms have "route_update_invoice s uid invoice_id data = update_invoice s invoice data"
    by (simp add: route_update_invoice_def)
  with update_invoice_allowed [OF k, of s invoice] h
  show "\<exists>i. route_update_invoice s uid invoice_id data = (save_invoice s i, Inr i) \<and>
                 inv_notes i = (case d_notes data of None \<Rightarrow> inv_notes invoice | Some n \<Rightarrow> Some n) \<and>
                 terms i = (case d_terms data of None \<Rightarrow> terms invoice | Some n \<Rightarrow> Some n)"
    by auto
qed

lemma find_example: "find_invoice (example_db st) 1 7 = Some (example_invoice st)"
  by (simp add: find_invoice_def example_db_def example_invoice_def)

theorem paid_invoice_locked_witness:
  "route_update_invoice (example_db PAID) 7 1 (empty_data\<lparr>d_items := Some scenario_items\<rparr>)
     = (example_db PAID, Inl InvoiceLocked) \<and>
   route_update_invoice (example_db PAID) 7 1 (empty_data\<lparr>d_other := [''discount'']\<rparr>)
     = (example_db PAID, Inl InvoiceLocked) \<and>
   (\<exists>i. route_update_invoice (example_db PAID) 7 1 (empty_data\<lparr>d_notes := Some ''thanks''\<rparr>)
          = (save_invoice (example_db PAID) i, Inr i) \<and> inv_notes i = Some ''thanks'')"
proof -
  have st: "status (example_invoice PAID) = PAID \<or> status (example_invoice PAID) = PARTIALLY_PAID"
    by (simp add: example_invoice_def)
  note th = paid_invoice_locked [OF find_example st]
  have a: "d_items (empty_data\<lparr>d_items := Some scenario_items\<rparr>) \<noteq> None" by simp
  have b: "\<exists>field \<in> set (data_keys (empty_data\<lparr>d_other := [''discount'']\<rparr>)).
             field \<notin> {''status'', ''notes'', ''terms''}"
    by (simp add: data_keys_def empty_data_def)
  have c: "set (data_keys (empty_data\<lparr>d_notes := Some ''thanks''\<rparr>)) \<subseteq> {''status'', ''notes'', ''terms''}
           \<and> (d_status (empty_data\<lparr>d_notes := Some ''thanks''\<rparr>) = None \<or>
              (\<exists>v st. d_status (empty_data\<lparr>d_notes := Some ''thanks''\<rparr>) = Some v \<and> InvoiceStatus_of v = Some st))"
    by (simp add: data_keys_def empty_data_def)
  from th [of "empty_data\<lparr>d_items := Some scenario_items\<rparr>"] a
  have 1: "route_update_invoice (example_db PAID) 7 1 (empty_data\<lparr>d_items := Some scenario_items\<rparr>)
     = (example_db PAID, Inl InvoiceLocked)" by blast
  from th [of "empty_data\<lparr>d_other := [''discount'']\<rparr>"] b
  have 2: "route_update_invoice (example_db PAID) 7 1 (empty_data\<lparr>d_other := [''discount'']\<rparr>)
     = (example_db PAID, Inl InvoiceLocked)" by blast
  from th [of "empty_data\<lparr>d_notes := Some ''thanks''\<rparr>"] c
  have 3: "\<exists>i. route_update_invoice (example_db PAID) 7 1 (empty_data\<lparr>d_notes := Some ''thanks''\<rparr>)
          = (save_invoice (example_db PAID) i, Inr i) \<and> inv_notes i = Some ''thanks''"
    by auto
  from 1 2 3 show ?thesis by blast
qed


section \<open>Sending an invoice\<close>

lemma route_send_invoice_found:
  "find_invoice s invoice_id uid = Some invoice \<Longrightarrow>
   route_send_invoice s uid invoice_id
     = (save_invoice s (invoice\<lparr>status := SENT\<rparr>), Inr (invoice\<lparr>status := SENT\<rparr>))"
  by (simp add: route_send_invoice_def Let_def)

lemma send_invoice_store:
  "fst (send_invoice s invoice send_email client_email)
     = (if status invoice = DRAFT then save_invoice s (invoice\<lparr>status := SENT\<rparr>) else s)"
  by (simp add: send_invoice_def Let_def split: option.splits)

lemma find_invoice_ids:
  "find_invoice s invoice_id uid = Some invoice \<Longrightarrow> inv_id invoice = invoice_id \<and> user_id invoice = uid"
  by (auto simp: find_invoice_def find_Some_iff)

text \<open>
  Claim C10. The route POST /api/invoices/id/send sets the status of the invoice it finds
  to SENT whatever the status was, and the stored row has it; send_invoice of the service
  writes SENT only over DRAFT and otherwise leaves the store alone. On a PAID invoice the
  route therefore stores SENT, where the service changes nothing.
\<close>

theorem route_send_unconditional:
  "(find_invoice s invoice_id uid = Some invoice \<longrightarrow>
      (\<exists>s'. route_send_invoice s uid invoice_id = (s', Inr (invoice\<lparr>status := SENT\<rparr>)) \<and>
            find_invoice s' invoice_id uid = Some (invoice\<lparr>status := SENT\<rparr>))) \<and>
   fst (send_invoice s invoice send_email client_email)
     = (if status invoice = DRAFT then save_invoice s (invoice\<lparr>status := SENT\<rparr>) else s) \<and>
   (\<exists>s'. route_send_invoice (example_db PAID) 7 1 = (s', Inr (example_invoice SENT)) \<and>
         find_invoice s' 1 7 = Some (example_invoice SENT)) \<and>
   fst (send_invoice (example_db PAID) (example_invoice PAID) False None) = example_db PAID"
proof (intro conjI impI)
  assume f: "find_invoice s invoice_id uid = Some invoice"
  have "find_invoice (save_invoice s (invoice\<lparr>status := SENT\<rparr>)) invoice_id uid
          = Some (invoice\<lparr>status := SENT\<rparr>)"
    by (rule find_invoice_save_invoice [OF f]) simp_all
  with route_send_invoice_found [OF f]
  show "\<exists>s'. route_send_invoice s uid invoice_id = (s', Inr (invoice\<lparr>status := SENT\<rparr>)) \<and>
            find_invoice s' invoice_id uid = Some (invoice\<lparr>status := SENT\<rparr>)"
    by simp
next
  show "fst (send_invoice s invoice send_email client_email)
     = (if status invoice = DRAFT then save_invoice s (invoice\<lparr>status := SENT\<rparr>) else s)"
    by (rule send_invoice_store)
next
  have e: "(example_invoice PAID)\<lparr>status := SENT\<rparr> = example_invoice SENT"
    by (simp add: example_invoice_def)
  have "find_invoice (save_invoice (example_db PAID) (example_invoice SENT)) 1 7
          = Some (example_invoice SENT)"
    by (rule find_invoice_save_invoice [OF find_example [of PAID]]) (simp_all add: example_invoice_def)
  with route_send_invoice_found [OF find_example [of PAID]] e
  show "\<exists>s'. route_send_invoice (example_db PAID) 7 1 = (s', Inr (example_invoice SENT)) \<and>
         find_invoice s' 1 7 = Some (example_invoice SENT)"
    by simp
next
  show "fst (send_invoice (example_db PAID) (example_invoice PAID) False None) = example_db PAID"
    by (simp add: send_invoice_store example_invoice_def)
qed

theorem route_send_unconditional_witness:
  "\<exists>s'. route_send_invoice (example_db VOID) 7 1 = (s', Inr ((example_invoice VOID)\<lparr>status := SENT\<rparr>)) \<and>
        find_invoice s' 1 7 = Some ((example_invoice VOID)\<lparr>status := SENT\<rparr>)"
  using route_send_unconditional [where s = "example_db VOID" and invoice_id = 1 and uid = 7
      and invoice = "example_invoice VOID"] find_example [of VOID]
  by blast


section \<open>Recording a payment\<close>

lemma record_payment_overpayment:
  "0 < payment_amount \<Longrightarrow> amount_due invoice < payment_amount \<Longrightarrow>
   record_payment s invoice payment_amount payment_date = (s, Inl OverpaymentRejected)"
  by (simp add: record_payment_def)

text \<open>
  Claim C2, at the input of the specification's scenario: amount due 270, payment 400.
  The service rejects the payment with OverpaymentRejected and leaves the store as it
  was. The route leaves the store as it was too, but it does not reject the payment as an
  overpayment: it has no comparison with amount_due, and the payment ends in the failure of
  its addition, answered with 'Failed to record payment'. For every request the route
  leaves the store as it was and answers with an error that is not OverpaymentRejected.
\<close>

theorem route_overpayment_not_rejected:
  "amount_due (example_invoice DRAFT) = 270 \<and>
   record_payment (example_db DRAFT) (example_invoice DRAFT) 400 example_date
     = (example_db DRAFT, Inl OverpaymentRejected) \<and>
   route_record_payment (example_db DRAFT) 7 1
       \<lparr>req_amount = Value 400, req_payment_date = Value example_date\<rparr>
     = (example_db DRAFT, Inl PaymentFailed) \<and>
   (\<exists>e. route_record_payment s uid invoice_id data = (s, Inl e) \<and> e \<noteq> OverpaymentRejected)"
proof (intro conjI)
  show "amount_due (example_invoice DRAFT) = 270"
    by (simp add: example_invoice_def)
  show "record_payment (example_db DRAFT) (example_invoice DRAFT) 400 example_date
     = (example_db DRAFT, Inl OverpaymentRejected)"
    by (simp add: record_payment_def example_invoice_def)
  show "route_record_payment (example_db DRAFT) 7 1
       \<lparr>req_amount = Value 400, req_payment_date = Value example_date\<rparr>
     = (example_db DRAFT, Inl PaymentFailed)"
    using find_example [of DRAFT]
    by (simp add: route_record_payment_def decimal_add_def example_invoice_def)
  show "\<exists>e. route_record_payment s uid invoice_id data = (s, Inl e) \<and> e \<noteq> OverpaymentRejected"
    by (auto simp: route_record_payment_def decimal_add_def split: field.splits option.splits)
qed

lemma record_payment_invalid_amount:
  "payment_amount \<le> 0 \<Longrightarrow>
   record_payment s invoice payment_amount payment_date = (s, Inl InvalidAmount)"
  by (simp add: record_payment_def)

lemma route_record_payment_invalid_amount:
  "req_amount data = Value payment_amount \<Longrightarrow> payment_amount \<le> 0 \<Longrightarrow>
   req_payment_date data \<noteq> Absent \<Longrightarrow>
   route_record_payment s uid invoice_id data = (s, Inl InvalidAmount)"
  by (simp add: route_record_payment_def)

lemma route_record_payment_void:
  "req_amount data = Value payment_amount \<Longrightarrow> 0 < payment_amount \<Longrightarrow>
   req_payment_date data \<noteq> Absent \<Longrightarrow> find_invoice s invoice_id uid = Some invoice \<Longrightarrow>
   status invoice = VOID \<Longrightarrow>
   route_record_payment s uid invoice_id data = (s, Inl InvoiceVoid)"
  by (simp add: route_record_payment_def)

lemma route_record_payment_valid_fails:
  "req_amount data = Value payment_amount \<Longrightarrow> 0 < payment_amount \<Longrightarrow>
   req_payment_date data = Value payment_date \<Longrightarrow>
   find_invoice s invoice_id uid = Some invoice \<Longrightarrow> status invoice \<noteq> VOID \<Longrightarrow>
   route_record_payment s uid invoice_id data = (s, Inl PaymentFailed)"
  by (simp add: route_record_payment_def decimal_add_def)

lemma record_payment_success:
  assumes "0 < payment_amount" "payment_amount \<le> amount_due invoice"
  shows "\<exists>i t. record_payment s invoice payment_amount payment_date
                 = (add_transaction (save_invoice s i) t, Inr (i, t)) \<and>
               i = as_stored (calculate_totals
                     (invoice\<lparr>amount_paid := amount_paid invoice + payment_amount\<rparr>)) \<and>
               txn_type t = INCOME \<and> category t = SERVICE \<and>
               txn_amount t = round_cents payment_amount \<and>
               txn_invoice_id t = Some (inv_id invoice) \<and> txn_project_id t = project_id invoice"
  using assms by (simp add: record_payment_def Let_def as_stored_def calculate_totals_keeps)

text \<open>
  Claim C6, at a VOID invoice with amount due 270 and a payment of 100. The route answers
  InvoiceVoid and leaves the store as it was. record_payment of the service has no check
  of the status: it accepts the payment, stores amount_paid 100 and status
  PARTIALLY_PAID, and adds a transaction of 100 to the ledger.
\<close>

theorem service_records_payment_on_void:
  "status (example_invoice VOID) = VOID \<and>
   route_record_payment (example_db VOID) 7 1
      \<lparr>req_amount = Value 100, req_payment_date = Value example_date\<rparr>
     = (example_db VOID, Inl InvoiceVoid) \<and>
   (\<exists>s' i t. record_payment (example_db VOID) (example_invoice VOID) 100 example_date
               = (s', Inr (i, t)) \<and>
             amount_paid i = 100 \<and> amount_due i = 170 \<and> status i = PARTIALLY_PAID \<and>
             invoices s' = [i] \<and> transactions s' = [t] \<and> txn_amount t = 100)"
  using find_example [of VOID]
  by (simp add: record_payment_def route_record_payment_def Let_def
        calculate_totals_def save_invoice_def add_transaction_def)
     (simp add: example_invoice_def example_db_def as_stored_def as_stored_item_def
        round_cents_examples round_cents_more)

section \<open>Invoice numbers\<close>

























lemma digit_chars:
  "digit_char 0 = CHR ''0''" "digit_char (Suc 0) = CHR ''1''" "digit_char 2 = CHR ''2''"
  "digit_char 3 = CHR ''3''" "digit_char 4 = CHR ''4''"
  by (simp_all add: digit_char_def char_of_eq_iff)

lemma replicate_3: "replicate 3 x = [x, x, x]"
  by (simp add: numeral_3_eq_3)

lemma str_examples:
  "str_nat 2024 = ''2024''" "zfill 2 (str_nat 3) = ''03''" "zfill 2 (str_nat 4) = ''04''"
  "zfill 4 (str_nat (Suc 0)) = ''0001''" "zfill 4 (str_nat 2) = ''0002''"
  by (simp_all add: str_nat.simps zfill_def digit_chars replicate_3)





section \<open>The income and expense report\<close>

lemma year_month_examples:
  "year_month \<lparr>year = 2024, month = 3, day = d\<rparr> = ''2024-03''"
  by (simp add: year_month_def str_examples) (simp add: zfill_def)

lemma example_ledger_rows:
  "group_rows year_month
     (user_transactions example_ledger 7 \<lparr>year = 2024, month = 1, day = 1\<rparr> \<lparr>year = 2024, month = 3, day = 31\<rparr>)
   = [(''2024-03'', INCOME, 100), (''2024-03'', EXPENSE, 30), (''2024-03'', TRANSFER, 5)]"
  by (simp add: group_rows_def group_row_def user_transactions_def example_ledger_def
      example_txn_def date_le_def date_less_def year_month_examples Let_def)

text \<open>
  Claim C7, at a ledger of user 7 with an income of 100, an expense of 30 and a transfer
  of 5 in March 2024, grouped by month. The amounts of type expense sum to 30. The report
  puts every row that is not of type income under expense, so the period shows expense
  35, net 65, and the totals show total_expense 35 and net_income 65.
\<close>

theorem income_expense_counts_transfers:
  "sum_list (map txn_amount (filter (\<lambda>t. txn_type t = EXPENSE) (transactions example_ledger))) = 30 \<and>
   income_expense_report (\<lambda>g. year_month) example_ledger \<lparr>year = 2024, month = 3, day = 31\<rparr> 7
       Absent Absent (Some ''month'')
     = Inr \<lparr>ie_data = [\<lparr>period = ''2024-03'', income = 100, expense = 35, net = 65\<rparr>],
            ie_total_income = 100, ie_total_expense = 35, ie_net_income = 65,
            ie_start_date = \<lparr>year = 2024, month = 1, day = 1\<rparr>,
            ie_end_date = \<lparr>year = 2024, month = 3, day = 31\<rparr>, ie_group_by = ''month''\<rparr>"
  by (simp add: income_expense_report_def example_ledger_rows process_rows_def add_to_entry_def
      Let_def)
     (simp add: example_ledger_def example_txn_def)

lemma income_expense_report_sorted:
  assumes "income_expense_report date_part s today uid start_arg end_arg group_by_arg = Inr r"
  shows "sorted (map period (ie_data r))"
    and "ie_total_income r = sum_list (map income (ie_data r))"
    and "ie_total_expense r = sum_list (map expense (ie_data r))"
    and "ie_net_income r = ie_total_income r - ie_total_expense r"
  using assms
  by (auto simp: income_expense_report_def Let_def split: if_splits sum.splits field.splits prod.splits)

section \<open>The cash flow report\<close>

lemma strftime_year_month_of_index:
  "1 \<le> month d \<Longrightarrow> month d \<le> 12 \<Longrightarrow> strftime_year_month (month_of_index (month_index d)) = strftime_year_month d"
proof -
  assume m: "1 \<le> month d" "month d \<le> 12"
  then have "(12 * year d + (month d - 1)) div 12 = year d"
    and "(12 * year d + (month d - 1)) mod 12 = month d - 1"
    by simp_all
  then show ?thesis
    by (simp add: strftime_year_month_def month_of_index_def month_index_def)
qed

lemma date_le_month_index:
  assumes "1 \<le> month c" "month c \<le> 12" "day c = 1" "1 \<le> month e" "month e \<le> 12" "1 \<le> day e"
  shows "date_le c e \<longleftrightarrow> month_index c \<le> month_index e"
  using assms by (auto simp: date_le_def date_less_def month_index_def)

lemma months_through_step:
  "month_index c \<le> month_index e \<Longrightarrow>
   months_through c e = month_of_index (month_index c)
      # map month_of_index [month_index c + 1 .. month_index e]"
  by (simp add: months_through_def upto_rec1 [of "month_index c"])

lemma periods_from_months:
  assumes "periods_from c e = Inr ps"
    and "1 \<le> month c" "month c \<le> 12" "day c = 1" "1 \<le> month e" "month e \<le> 12" "1 \<le> day e"
  shows "ps = map strftime_year_month (months_through c e)"
  using assms
proof (induction c e arbitrary: ps rule: periods_from.induct)
  case (1 current end_date)
  note le = date_le_month_index [OF "1.prems"(2-7)]
  show ?case
  proof (cases "date_le current end_date")
    case False
    with "1.prems"(1) have "ps = []"
      by (simp add: periods_from.simps [of current end_date])
    moreover from False le have "months_through current end_date = []"
      by (simp add: months_through_def)
    ultimately show ?thesis by simp
  next
    case True
    with le have i: "month_index current \<le> month_index end_date" by simp
    note head = strftime_year_month_of_index [OF "1.prems"(2,3)]
    show ?thesis
    proof (cases "month current = 12")
      case m12: True
      let ?n = "current\<lparr>year := year current + 1, month := 1, day := 1\<rparr>"
      from "1.prems"(1) True m12 obtain ps' where y: "year current + 1 \<le> 9999"
        and r: "periods_from ?n end_date = Inr ps'" and ps: "ps = strftime_year_month current # ps'"
        by (auto simp: periods_from.simps [of current end_date] split: if_splits sum.splits)
      have "ps' = map strftime_year_month (months_through ?n end_date)"
        by (rule "1.IH"(1) [OF True m12 y r]) (use "1.prems" in simp_all)
      moreover have "month_index ?n = month_index current + 1"
        using m12 by (simp add: month_index_def)
      then have "months_through current end_date
          = month_of_index (month_index current) # months_through ?n end_date"
        by (simp add: months_through_step [OF i]) (simp add: months_through_def)
      ultimately show ?thesis
        using ps head by simp
    next
      case False
      let ?n = "current\<lparr>month := month current + 1, day := 1\<rparr>"
      from "1.prems"(1) True False obtain ps' where v: "1 \<le> month current + 1 \<and> month current + 1 \<le> 12"
        and r: "periods_from ?n end_date = Inr ps'" and ps: "ps = strftime_year_month current # ps'"
        by (auto simp: periods_from.simps [of current end_date] split: if_splits sum.splits)
      have "ps' = map strftime_year_month (months_through ?n end_date)"
        by (rule "1.IH"(2) [OF True False v r]) (use "1.prems" v in simp_all)
      moreover have "month_index ?n = month_index current + 1"
        by (simp add: month_index_def)
      then have "months_through current end_date
          = month_of_index (month_index current) # months_through ?n end_date"
        by (simp add: months_through_step [OF i]) (simp add: months_through_def)
      ultimately show ?thesis
        using ps head by simp
    qed
  qed
qed

lemma days_before_first_month: "DAYS_BEFORE_MONTH ! Suc 0 = 0"
  by (simp add: DAYS_BEFORE_MONTH_def)

lemma month_and_day_month:
  assumes "0 \<le> n" "n < 365"
  shows "1 \<le> month (month_and_day y b n) \<and> month (month_and_day y b n) \<le> 12"
proof -
  define m where "m = (n + 50) div 32"
  have m: "1 \<le> m" "m \<le> 12"
    using assms by (simp_all add: m_def)
  define pre where "pre = DAYS_BEFORE_MONTH ! nat m + (if m > 2 \<and> b then 1 else 0)"
  have eq: "month (month_and_day y b n) = (if pre > n then m - 1 else m)"
    by (simp add: month_and_day_def Let_def m_def pre_def)
  have "2 \<le> m" if "pre > n"
  proof (rule ccontr)
    assume "\<not> 2 \<le> m"
    with m have "m = 1" by simp
    then have "pre = 0" by (simp add: pre_def days_before_first_month)
    with that assms show False by simp
  qed
  with m show ?thesis
    unfolding eq by auto
qed

lemma fromordinal_month: "1 \<le> month (fromordinal n0) \<and> month (fromordinal n0) \<le> 12"
proof -
  let ?n = "(n0 - 1) mod 146097 mod 36524 mod 1461 mod 365"
  have "0 \<le> ?n" "?n < 365"
    by simp_all
  from month_and_day_month [OF this] show ?thesis
    by (simp add: fromordinal_def Let_def)
qed

lemma index_of_Some: "index_of xs x = Some i \<Longrightarrow> i < length xs \<and> xs ! i = x"
  by (induction xs arbitrary: i) (auto split: if_splits)

lemma length_fill_in: "length (fill_in periods rows cash) = length cash"
  by (induction periods rows cash rule: fill_in.induct) (auto split: option.splits)

lemma period_set_entry: "period (set_entry ty a e) = period e"
  by (simp add: set_entry_def Let_def)

lemma periods_fill_in: "map period (fill_in periods rows cash) = map period cash"
proof (induction periods rows cash rule: fill_in.induct)
  case (1 periods cash)
  then show ?case by simp
next
  case (2 periods m ty a rows cash)
  show ?case
  proof (cases "index_of periods m")
    case None
    with 2 show ?thesis by simp
  next
    case (Some idx)
    have "map period (cash[idx := set_entry ty a (cash ! idx)]) = map period cash"
    proof (cases "idx < length cash")
      case True
      then show ?thesis
        by (simp add: map_update period_set_entry list_update_same_conv)
    next
      case False
      then have "cash[idx := set_entry ty a (cash ! idx)] = cash"
        by (intro list_update_beyond) (simp add: not_less)
      then show ?thesis by simp
    qed
    with 2 Some show ?thesis by simp
  qed
qed

lemma fill_in_untouched:
  assumes "length cash = length periods" "i < length periods"
    and "periods ! i \<notin> fst ` set rows"
  shows "fill_in periods rows cash ! i = cash ! i"
  using assms
proof (induction periods rows cash rule: fill_in.induct)
  case (1 periods cash)
  then show ?case by simp
next
  case (2 periods m ty a rows cash)
  from "2.prems"(3) have m: "periods ! i \<noteq> m" and rest: "periods ! i \<notin> fst ` set rows"
    by auto
  show ?case
  proof (cases "index_of periods m")
    case None
    with 2 rest show ?thesis by simp
  next
    case (Some idx)
    with index_of_Some m have "idx \<noteq> i" by fastforce
    with "2.IH"(2) [OF Some] "2.prems"(1,2) rest Some show ?thesis
      by simp
  qed
qed

lemma group_row_key: "(p', ty', a) \<in> set (group_row f txns p ty) \<Longrightarrow> p' = p"
  by (auto simp: group_row_def Let_def split: if_splits)

lemma group_rows_keys:
  "fst ` set (group_rows f txns) \<subseteq> (\<lambda>t. f (txn_date t)) ` set txns"
  by (auto simp: group_rows_def dest!: group_row_key)

lemma length_add_running_balance: "length (add_running_balance b es) = length es"
  by (induction es arbitrary: b) auto

lemma add_running_balance_nth:
  "i < length es \<Longrightarrow>
   add_running_balance b es ! i
     = (es ! i)\<lparr>running_balance := b + sum_list (map net (take (Suc i) es))\<rparr>"
proof (induction es arbitrary: b i)
  case Nil
  then show ?case by simp
next
  case (Cons e es)
  then show ?case
    by (cases i) (auto simp: add.assoc)
qed

lemma net_add_running_balance: "map net (add_running_balance b es) = map net es"
  by (induction es arbitrary: b) auto

lemma digit_chars_more:
  "digit_char 5 = CHR ''5''" "digit_char 6 = CHR ''6''" "digit_char 7 = CHR ''7''"
  "digit_char 8 = CHR ''8''" "digit_char 9 = CHR ''9''"
  by (simp_all add: digit_char_def char_of_eq_iff)

lemma year_month_2024:
  "year_month \<lparr>year = 2024, month = 1, day = d\<rparr> = ''2024-01''"
  "year_month \<lparr>year = 2024, month = 2, day = d\<rparr> = ''2024-02''"
  "year_month \<lparr>year = 2024, month = 4, day = d\<rparr> = ''2024-04''"
  "year_month \<lparr>year = 2024, month = 5, day = d\<rparr> = ''2024-05''"
  "year_month \<lparr>year = 2023, month = 12, day = d\<rparr> = ''2023-12''"
  by (simp_all add: year_month_def str_nat.simps zfill_def digit_chars digit_chars_more)

lemma strftime_year_month_2024:
  "strftime_year_month \<lparr>year = 2024, month = 1, day = d\<rparr> = ''2024-01''"
  "strftime_year_month \<lparr>year = 2024, month = 2, day = d\<rparr> = ''2024-02''"
  "strftime_year_month \<lparr>year = 2024, month = 3, day = d\<rparr> = ''2024-03''"
  "strftime_year_month \<lparr>year = 2024, month = 4, day = d\<rparr> = ''2024-04''"
  "strftime_year_month \<lparr>year = 2024, month = 5, day = d\<rparr> = ''2024-05''"
  "strftime_year_month \<lparr>year = 2023, month = 12, day = d\<rparr> = ''2023-12''"
  by (simp_all add: strftime_year_month_def str_nat.simps zfill_def digit_chars digit_chars_more)

lemma minus_days_examples:
  "date_minus_days \<lparr>year = 2024, month = 3, day = 31\<rparr> 30 = Inr \<lparr>year = 2024, month = 3, day = 1\<rparr>"
  "date_minus_days \<lparr>year = 2024, month = 3, day = 15\<rparr> 90 = Inr \<lparr>year = 2023, month = 12, day = 16\<rparr>"
  "date_minus_days \<lparr>year = 2024, month = 5, day = 20\<rparr> 60 = Inr \<lparr>year = 2024, month = 3, day = 21\<rparr>"
  "date_minus_days \<lparr>year = 2024, month = 3, day = 1\<rparr> 30 = Inr \<lparr>year = 2024, month = 1, day = 31\<rparr>"
  by (simp_all add: date_minus_days_def toordinal_def fromordinal_def month_and_day_def
      days_before_year_def days_before_month_def is_leap_def DAYS_BEFORE_MONTH_def
      DAYS_IN_MONTH_def Let_def)

lemma periods_examples:
  "periods_from \<lparr>year = 2024, month = 3, day = 1\<rparr> \<lparr>year = 2024, month = 3, day = 31\<rparr> = Inr [''2024-03'']"
  "periods_from \<lparr>year = 2023, month = 12, day = 1\<rparr> \<lparr>year = 2024, month = 3, day = 15\<rparr>
     = Inr [''2023-12'', ''2024-01'', ''2024-02'', ''2024-03'']"
  "periods_from \<lparr>year = 2024, month = 3, day = 1\<rparr> \<lparr>year = 2024, month = 5, day = 20\<rparr>
     = Inr [''2024-03'', ''2024-04'', ''2024-05'']"
  "periods_from \<lparr>year = 2024, month = 1, day = 1\<rparr> \<lparr>year = 2024, month = 3, day = 1\<rparr>
     = Inr [''2024-01'', ''2024-02'', ''2024-03'']"
  by (simp_all add: periods_from.simps date_le_def date_less_def strftime_year_month_2024)

lemma spec_periods_example:
  "spec_periods \<lparr>year = 2024, month = 3, day = 31\<rparr> 1 = [''2024-02'', ''2024-03'']"
  by (simp add: spec_periods_def spec_start_def months_through_def month_index_def
      month_of_index_def upto.simps year_month_2024 year_month_examples)

lemma cash_flow_report_Inr:
  assumes "cash_flow_report s today uid end_arg months_arg = Inr r"
  shows "\<exists>d0 periods.
           cf_end_date r = (case end_arg of Value d \<Rightarrow> d | _ \<Rightarrow> today) \<and>
           0 < (case months_arg of None \<Rightarrow> 12 | Some k \<Rightarrow> k) \<and>
           date_minus_days (cf_end_date r) (30 * (case months_arg of None \<Rightarrow> 12 | Some k \<Rightarrow> k)) = Inr d0 \<and>
           cf_start_date r = d0\<lparr>day := 1\<rparr> \<and>
           periods_from (cf_start_date r) (cf_end_date r) = Inr periods \<and>
           cf_data r = add_running_balance 0
             (fill_in periods
                (group_rows year_month (user_transactions s uid (cf_start_date r) (cf_end_date r)))
                (map (\<lambda>p. \<lparr>period = p, income = 0, expense = 0, net = 0, running_balance = 0\<rparr>) periods))"
  using assms
  by (auto simp: cash_flow_report_def Let_def split: field.splits sum.splits if_splits)

lemma add_running_balance_fields:
  assumes "i < length es"
  shows "period (add_running_balance b es ! i) = period (es ! i)"
    "income (add_running_balance b es ! i) = income (es ! i)"
    "expense (add_running_balance b es ! i) = expense (es ! i)"
    "net (add_running_balance b es ! i) = net (es ! i)"
    "running_balance (add_running_balance b es ! i) = b + sum_list (map net (take (Suc i) es))"
  by (simp_all add: add_running_balance_nth [OF assms])

text \<open>
  The shape of a report. Its start date is the first day of the month of the day that lies
  30 * months days before the end date; its periods are the calendar months from the
  month of the start date through the month of the end date, in order; a period that is
  the month of no transaction of the range has income 0, expense 0 and net 0; the running
  balance of each period is the sum of net over the periods up to and including it.
\<close>

lemma cash_flow_report_structure:
  assumes "cash_flow_report s today uid end_arg months_arg = Inr r"
    and "valid_date (cf_end_date r)"
  shows "cf_end_date r = (case end_arg of Value d \<Rightarrow> d | _ \<Rightarrow> today) \<and>
    (\<exists>d0. date_minus_days (cf_end_date r) (30 * (case months_arg of None \<Rightarrow> 12 | Some k \<Rightarrow> k)) = Inr d0
          \<and> cf_start_date r = d0\<lparr>day := 1\<rparr>) \<and>
    map period (cf_data r) = map strftime_year_month (months_through (cf_start_date r) (cf_end_date r)) \<and>
    (\<forall>e \<in> set (cf_data r).
        (\<forall>t \<in> set (user_transactions s uid (cf_start_date r) (cf_end_date r)).
            year_month (txn_date t) \<noteq> period e) \<longrightarrow>
        income e = 0 \<and> expense e = 0 \<and> net e = 0) \<and>
    (\<forall>i < length (cf_data r).
        running_balance (cf_data r ! i) = sum_list (map net (take (Suc i) (cf_data r)))) \<and>
    (\<forall>i. Suc i < length (cf_data r) \<and> net (cf_data r ! Suc i) = 0 \<longrightarrow>
        running_balance (cf_data r ! Suc i) = running_balance (cf_data r ! i))"
proof -
  let ?rows = "group_rows year_month (user_transactions s uid (cf_start_date r) (cf_end_date r))"
  from cash_flow_report_Inr [OF assms(1)] obtain d0 periods where
    e: "cf_end_date r = (case end_arg of Value d \<Rightarrow> d | _ \<Rightarrow> today)"
    and d0: "date_minus_days (cf_end_date r) (30 * (case months_arg of None \<Rightarrow> 12 | Some k \<Rightarrow> k)) = Inr d0"
    and st: "cf_start_date r = d0\<lparr>day := 1\<rparr>"
    and ps: "periods_from (cf_start_date r) (cf_end_date r) = Inr periods"
    and data: "cf_data r = add_running_balance 0
             (fill_in periods ?rows
                (map (\<lambda>p. \<lparr>period = p, income = 0, expense = 0, net = 0, running_balance = 0\<rparr>) periods))"
    by blast
  let ?init = "map (\<lambda>p. \<lparr>period = p, income = 0, expense = 0, net = 0, running_balance = 0\<rparr>) periods"
  let ?filled = "fill_in periods ?rows ?init"
  have len: "length ?filled = length periods" "length (cf_data r) = length periods"
    by (simp_all add: data length_fill_in length_add_running_balance)
  have "\<exists>n. d0 = fromordinal n"
    using d0 by (auto simp: date_minus_days_def Let_def split: if_splits)
  then have m0: "1 \<le> month d0 \<and> month d0 \<le> 12"
    using fromordinal_month by blast
  from assms(2) have ve: "1 \<le> month (cf_end_date r)" "month (cf_end_date r) \<le> 12" "1 \<le> day (cf_end_date r)"
    by (simp_all add: valid_date_def)
  have periods: "periods = map strftime_year_month (months_through (cf_start_date r) (cf_end_date r))"
    by (rule periods_from_months [OF ps _ _ _ ve]) (use m0 st in simp_all)
  have mp: "map period ?filled = periods"
    by (simp add: periods_fill_in comp_def)
  have per: "map period (cf_data r) = periods"
  proof (rule nth_equalityI)
    show "length (map period (cf_data r)) = length periods"
      by (simp add: len)
  next
    fix i assume "i < length (map period (cf_data r))"
    then have i: "i < length ?filled" by (simp add: len)
    then have "period (cf_data r ! i) = map period ?filled ! i"
      by (simp add: data add_running_balance_fields del: length_map)
    with i show "map period (cf_data r) ! i = periods ! i"
      by (simp add: mp len)
  qed
  have zero: "income e = 0 \<and> expense e = 0 \<and> net e = 0"
    if e: "e \<in> set (cf_data r)"
      and none: "\<forall>t \<in> set (user_transactions s uid (cf_start_date r) (cf_end_date r)).
            year_month (txn_date t) \<noteq> period e"
    for e
  proof -
    from e obtain i where i: "i < length periods" and ei: "e = cf_data r ! i"
      by (auto simp: in_set_conv_nth len)
    from i have "period e = periods ! i"
      using per ei by (metis len(2) nth_map)
    with none group_rows_keys [of year_month "user_transactions s uid (cf_start_date r) (cf_end_date r)"]
    have "periods ! i \<notin> fst ` set ?rows"
      by force
    with i have "?filled ! i = ?init ! i"
      by (intro fill_in_untouched) simp_all
    with i ei show ?thesis
      by (simp add: data add_running_balance_fields len)
  qed
  have run: "running_balance (cf_data r ! i) = sum_list (map net (take (Suc i) (cf_data r)))"
    if "i < length (cf_data r)" for i
  proof -
    from that have i: "i < length ?filled" by (simp add: len)
    have "map net (cf_data r) = map net ?filled"
      by (simp add: data net_add_running_balance)
    then have "map net (take (Suc i) (cf_data r)) = map net (take (Suc i) ?filled)"
      by (simp add: take_map [symmetric])
    with i show ?thesis
      by (simp add: data add_running_balance_fields)
  qed
  have carry: "running_balance (cf_data r ! Suc i) = running_balance (cf_data r ! i)"
    if "Suc i < length (cf_data r) \<and> net (cf_data r ! Suc i) = 0" for i
  proof -
    from that have l: "Suc i < length (cf_data r)" and z: "net (cf_data r ! Suc i) = 0"
      by simp_all
    from l have "take (Suc (Suc i)) (cf_data r) = take (Suc i) (cf_data r) @ [cf_data r ! Suc i]"
      by (rule take_Suc_conv_app_nth)
    with z run [OF l] run [of i] l show ?thesis
      by simp
  qed
  from e d0 st periods per zero run carry show ?thesis
    by (intro conjI) (blast, blast, simp, blast, blast, blast)
qed

lemma no_transactions: "user_transactions \<lparr>invoices = [], transactions = []\<rparr> uid a b = []"
  by (simp add: user_transactions_def)

lemma group_rows_empty: "group_rows f [] = []"
  by (simp add: group_rows_def)

text \<open>
  Claim C3, at three requests on an empty ledger. With end date 2024-03-31 and months = 1
  the report has the single period 2024-03, where the months from the month one month
  before the end through the end are 2024-02 and 2024-03. With end date 2024-03-01 and
  months = 1 the report has the three periods 2024-01 to 2024-03. With end date 2024-03-15
  and months = 3 the report has the four periods 2023-12 to 2024-03.
\<close>

theorem cash_flow_start_thirty_days:
  "(\<exists>r. cash_flow_report \<lparr>invoices = [], transactions = []\<rparr> \<lparr>year = 2024, month = 3, day = 31\<rparr> 7
           Absent (Some 1) = Inr r \<and>
        cf_start_date r = \<lparr>year = 2024, month = 3, day = 1\<rparr> \<and>
        map period (cf_data r) = [''2024-03''] \<and>
        spec_periods \<lparr>year = 2024, month = 3, day = 31\<rparr> 1 = [''2024-02'', ''2024-03''] \<and>
        map period (cf_data r) \<noteq> spec_periods \<lparr>year = 2024, month = 3, day = 31\<rparr> 1) \<and>
   (\<exists>r. cash_flow_report \<lparr>invoices = [], transactions = []\<rparr> \<lparr>year = 2024, month = 3, day = 1\<rparr> 7
           Absent (Some 1) = Inr r \<and>
        cf_start_date r = \<lparr>year = 2024, month = 1, day = 1\<rparr> \<and>
        map period (cf_data r) = [''2024-01'', ''2024-02'', ''2024-03'']) \<and>
   (\<exists>r. cash_flow_report \<lparr>invoices = [], transactions = []\<rparr> \<lparr>year = 2024, month = 3, day = 15\<rparr> 7
           Absent (Some 3) = Inr r \<and>
        cf_start_date r = \<lparr>year = 2023, month = 12, day = 1\<rparr> \<and>
        map period (cf_data r) = [''2023-12'', ''2024-01'', ''2024-02'', ''2024-03''] \<and>
        length (cf_data r) \<noteq> 3)"
  by (simp add: cash_flow_report_def minus_days_examples periods_examples no_transactions
      group_rows_empty spec_periods_example Let_def)

text \<open>
  With transactions in the first month only, the later months of the report show income 0
  and expense 0 and carry the running balance of the first.
\<close>

lemma march_rows:
  "group_rows year_month
     (user_transactions march_ledger 7 \<lparr>year = 2024, month = 3, day = 1\<rparr> \<lparr>year = 2024, month = 5, day = 20\<rparr>)
   = [(''2024-03'', INCOME, 100), (''2024-03'', EXPENSE, 30)]"
  by (simp add: group_rows_def group_row_def user_transactions_def march_ledger_def
      example_txn_def date_le_def date_less_def year_month_examples Let_def)

lemma march_report:
  "cash_flow_report march_ledger \<lparr>year = 2024, month = 5, day = 20\<rparr> 7 Absent (Some 2)
     = Inr \<lparr>cf_data =
              [\<lparr>period = ''2024-03'', income = 100, expense = 30, net = 70, running_balance = 70\<rparr>,
               \<lparr>period = ''2024-04'', income = 0, expense = 0, net = 0, running_balance = 70\<rparr>,
               \<lparr>period = ''2024-05'', income = 0, expense = 0, net = 0, running_balance = 70\<rparr>],
            cf_total_income = 100, cf_total_expense = 30, cf_net_cash_flow = 70,
            cf_ending_balance = 70,
            cf_start_date = \<lparr>year = 2024, month = 3, day = 1\<rparr>,
            cf_end_date = \<lparr>year = 2024, month = 5, day = 20\<rparr>\<rparr>"
  by (simp add: cash_flow_report_def minus_days_examples periods_examples march_rows
      set_entry_def Let_def)

end
